theory Spec2Isabelle
  imports Complex_Main "HOL-Library.Sublist"
begin

section \<open>Strings\<close>

text \<open>
  Python \<^verbatim>\<open>str\<close> values are modelled as \<^typ>\<open>string\<close> restricted to ASCII:
  \<^verbatim>\<open>str.lower()\<close> maps \<^verbatim>\<open>A-Z\<close> to \<^verbatim>\<open>a-z\<close> and \<^verbatim>\<open>str.strip()\<close> removes the ASCII
  whitespace characters (space, tab, newline, vertical tab, form feed, carriage return
  and the separators 0x1C-0x1F) from both ends.
\<close>

definition is_space :: "char \<Rightarrow> bool" where
  "is_space c = (let k = (of_char c :: nat) in k = 32 \<or> (9 \<le> k \<and> k \<le> 13) \<or> (28 \<le> k \<and> k \<le> 31))"

definition char_lower :: "char \<Rightarrow> char" where
  "char_lower c = (let k = (of_char c :: nat) in if 65 \<le> k \<and> k \<le> 90 then char_of (k + 32) else c)"

definition lower :: "string \<Rightarrow> string" where
  "lower s = map char_lower s"

definition strip :: "string \<Rightarrow> string" where
  "strip s = rev (dropWhile is_space (rev (dropWhile is_space s)))"

text \<open>\<^verbatim>\<open>a in b\<close> on two strings: \<open>a\<close> occurs in \<open>b\<close> as a contiguous substring.\<close>

definition py_in :: "string \<Rightarrow> string \<Rightarrow> bool" where
  "py_in a b = sublist a b"

text \<open>
  Python slicing \<^verbatim>\<open>xs[:n]\<close> (also \<^verbatim>\<open>DataFrame.head(n)\<close>): the first \<open>n\<close> elements
  when \<open>n\<close> is not negative, all but the last \<open>-n\<close> elements when it is.
\<close>

definition py_slice_to :: "int \<Rightarrow> 'a list \<Rightarrow> 'a list" where
  "py_slice_to n xs = (if 0 \<le> n then take (nat n) xs else take (length xs - nat (- n)) xs)"

section \<open>The catalog\<close>

text \<open>
  A row of \<^verbatim>\<open>movies_df\<close>. A null (NaN) cell is \<open>None\<close>: the title, which
  \<^verbatim>\<open>find_movie_in_dataset\<close> guards with \<^verbatim>\<open>na=False\<close>, the genres, which the loader
  fills with \<^verbatim>\<open>fillna('')\<close> for the combined features only and on which the genre
  filter calls \<^verbatim>\<open>.lower()\<close>, and the two numeric columns. The columns
  \<^verbatim>\<open>overview\<close>, \<^verbatim>\<open>release_date\<close> and \<^verbatim>\<open>poster_path\<close> are only copied into the
  results; they are strings here. The frame has the default \<^verbatim>\<open>RangeIndex\<close>, so that
  a row's index label is its position (the source uses the label returned by
  \<^verbatim>\<open>find_movie_in_dataset\<close> as a position in \<^verbatim>\<open>iloc\<close>).
\<close>

record movie_row =
  title :: "string option"
  overview :: string
  genres :: "string option"
  release_date :: string
  vote_average :: "rat option"
  vote_count :: "rat option"
  poster_path :: string

type_synonym frame = "(nat \<times> movie_row) list"

type_synonym embedding = "rat list"

text \<open>
  The fitted \<^verbatim>\<open>KMeans\<close> object: \<^verbatim>\<open>predict\<close> assigns a label to an embedding,
  \<open>labels\<close> is \<^verbatim>\<open>labels_\<close>, the assignment stored at training time.
\<close>

record kmeans =
  predict :: "embedding \<Rightarrow> int"
  labels :: "int list"

text \<open>
  The \<^verbatim>\<open>MovieRecommender\<close> object after \<^verbatim>\<open>__init__\<close>. The two flags say whether
  the columns \<^verbatim>\<open>vote_average\<close> and \<^verbatim>\<open>vote_count\<close> are in \<^verbatim>\<open>movies_df.columns\<close>;
  an API key is \<open>None\<close> when the environment variable is not set.
\<close>

record recommender =
  movies_df :: "movie_row list"
  has_vote_average :: bool
  has_vote_count :: bool
  tfidf_matrix :: "embedding list"
  kmeans_model :: "kmeans option"
  tmdb_api_key :: "string option"
  omdb_api_key :: "string option"

definition df_frame :: "recommender \<Rightarrow> frame" where
  "df_frame r = enumerate 0 (movies_df r)"

text \<open>\<^verbatim>\<open>df[mask].index\<close>: the index labels of the rows where the mask is true.\<close>

definition masked_index :: "bool list \<Rightarrow> nat list" where
  "masked_index bs = map fst (filter snd (enumerate 0 bs))"

definition mask_any :: "bool list \<Rightarrow> bool" where
  "mask_any bs = list_ex id bs"

definition exact_mask :: "recommender \<Rightarrow> string \<Rightarrow> bool list" where
  "exact_mask r movie_name_lower =
     map (\<lambda>row. case title row of None \<Rightarrow> False
                 | Some t \<Rightarrow> strip (lower t) = movie_name_lower) (movies_df r)"

definition partial_mask :: "recommender \<Rightarrow> string \<Rightarrow> bool list" where
  "partial_mask r movie_name_lower =
     map (\<lambda>row. case title row of None \<Rightarrow> False
                 | Some t \<Rightarrow> py_in movie_name_lower (lower t)) (movies_df r)"

definition find_movie_in_dataset :: "recommender \<Rightarrow> string \<Rightarrow> nat option" where
  "find_movie_in_dataset r movie_name =
     (let movie_name_lower = strip (lower movie_name) in
      if mask_any (exact_mask r movie_name_lower)
      then Some (hd (masked_index (exact_mask r movie_name_lower)))
      else if mask_any (partial_mask r movie_name_lower)
      then Some (hd (masked_index (partial_mask r movie_name_lower)))
      else None)"

section \<open>Ranking\<close>

text \<open>
  \<^verbatim>\<open>DataFrame.nlargest(n, column)\<close> with the default \<^verbatim>\<open>keep='first'\<close>: nothing when
  \<open>n \<le> 0\<close>; otherwise the first \<open>n\<close> rows of the frame ordered by the column descending,
  rows with equal values in their order in the frame, and the rows whose cell is NaN after
  all others, in their order in the frame. \<^const>\<open>sort_key\<close> is a stable insertion sort.
\<close>

definition nlargest :: "int \<Rightarrow> ('a \<Rightarrow> rat option) \<Rightarrow> 'a list \<Rightarrow> 'a list" where
  "nlargest n col df =
     (if n \<le> 0 then []
      else take (nat n)
             (sort_key (\<lambda>x. - the (col x)) (filter (\<lambda>x. col x \<noteq> None) df)
              @ filter (\<lambda>x. col x = None) df))"

definition head :: "int \<Rightarrow> 'a list \<Rightarrow> 'a list" where
  "head n df = py_slice_to n df"

definition col_vote_average :: "nat \<times> movie_row \<Rightarrow> rat option" where
  "col_vote_average x = vote_average (snd x)"

definition col_vote_count :: "nat \<times> movie_row \<Rightarrow> rat option" where
  "col_vote_count x = vote_count (snd x)"

text \<open>
  The dictionaries appended to \<^verbatim>\<open>recommendations\<close>. \<^verbatim>\<open>float(movie.get('vote_average', 0))\<close>
  is the cell (NaN stays NaN, \<open>None\<close>) when the column exists and \<open>0.0\<close> when it does not.
\<close>

record recommendation =
  rec_title :: "string option"
  rec_overview :: string
  rec_genres :: "string option"
  rec_release_date :: string
  rec_vote_average :: "rat option"
  rec_poster_path :: string
  similarity_score :: rat
  recommendation_method :: string

definition row_vote_average :: "recommender \<Rightarrow> movie_row \<Rightarrow> rat option" where
  "row_vote_average r movie = (if has_vote_average r then vote_average movie else Some 0)"

definition to_recommendation :: "recommender \<Rightarrow> string \<Rightarrow> nat \<times> movie_row \<Rightarrow> recommendation" where
  "to_recommendation r method x =
     (let movie = snd x in
      \<lparr> rec_title = title movie,
        rec_overview = overview movie,
        rec_genres = genres movie,
        rec_release_date = release_date movie,
        rec_vote_average = row_vote_average r movie,
        rec_poster_path = poster_path movie,
        similarity_score = 0,
        recommendation_method = method \<rparr>)"

text \<open>The rows \<^verbatim>\<open>popular_movies\<close> that \<^verbatim>\<open>get_popular_movies\<close> selects, with their index.\<close>

definition popular_movies :: "recommender \<Rightarrow> int \<Rightarrow> frame" where
  "popular_movies r n_movies =
     (if has_vote_average r \<and> has_vote_count r
      then nlargest n_movies col_vote_count (nlargest (n_movies * 2) col_vote_average (df_frame r))
      else if has_vote_average r
      then nlargest n_movies col_vote_average (df_frame r)
      else head n_movies (df_frame r))"

definition get_popular_movies :: "recommender \<Rightarrow> int \<Rightarrow> recommendation list" where
  "get_popular_movies r n_movies = map (to_recommendation r ''popular'') (popular_movies r n_movies)"

datatype py_error = KeyError | TypeError | AttributeError | IndexError | ValueError

text \<open>
  The body of the \<^verbatim>\<open>try\<close> block of \<^verbatim>\<open>recommend_for_existing_movie\<close> up to
  \<^verbatim>\<open>top_movies\<close>. \<^verbatim>\<open>predict\<close> on the empty slice of an index outside the matrix raises,
  a boolean mask whose length is not the frame's raises, and so does \<^verbatim>\<open>index[movie_idx]\<close>
  outside the frame. The label of the queried row is what \<^verbatim>\<open>predict\<close> returns for its
  embedding; the labels of the candidates are read from \<^verbatim>\<open>labels_\<close>.
\<close>

definition cluster_top_movies :: "recommender \<Rightarrow> kmeans \<Rightarrow> nat \<Rightarrow> int \<Rightarrow> py_error + frame" where
  "cluster_top_movies r km movie_idx n_recommendations =
     (if length (tfidf_matrix r) \<le> movie_idx then Inl ValueError
      else let movie_cluster = predict km (tfidf_matrix r ! movie_idx) in
        if length (labels km) \<noteq> length (movies_df r) then Inl ValueError
        else if length (movies_df r) \<le> movie_idx then Inl IndexError
        else let cluster_movies =
                   filter (\<lambda>x. fst x \<noteq> movie_idx)
                     (filter (\<lambda>x. labels km ! fst x = movie_cluster) (df_frame r))
             in Inr (if has_vote_average r
                     then nlargest n_recommendations col_vote_average cluster_movies
                     else head n_recommendations cluster_movies))"

definition recommend_for_existing_movie :: "recommender \<Rightarrow> nat \<Rightarrow> int \<Rightarrow> recommendation list" where
  "recommend_for_existing_movie r movie_idx n_recommendations =
     (case kmeans_model r of
        None \<Rightarrow> get_popular_movies r n_recommendations
      | Some km \<Rightarrow>
          (case cluster_top_movies r km movie_idx n_recommendations of
             Inl e \<Rightarrow> get_popular_movies r n_recommendations
           | Inr top_movies \<Rightarrow> map (to_recommendation r ''cluster_based'') top_movies))"

section \<open>External providers\<close>

text \<open>
  Values decoded from JSON, as Python sees them. A dictionary is an association list,
  read with \<^const>\<open>map_of\<close>.
\<close>

datatype py_value =
    PyNone
  | PyBool bool
  | PyInt int
  | PyFloat rat
  | PyStr string
  | PyList "py_value list"
  | PyDict "(string \<times> py_value) list"

text \<open>Truthiness, as \<^verbatim>\<open>if v:\<close> tests it.\<close>

fun py_truthy :: "py_value \<Rightarrow> bool" where
  "py_truthy PyNone = False"
| "py_truthy (PyBool b) = b"
| "py_truthy (PyInt i) = (i \<noteq> 0)"
| "py_truthy (PyFloat x) = (x \<noteq> 0)"
| "py_truthy (PyStr s) = (s \<noteq> [])"
| "py_truthy (PyList xs) = (xs \<noteq> [])"
| "py_truthy (PyDict d) = (d \<noteq> [])"

text \<open>\<^verbatim>\<open>v[key]\<close> with a string key.\<close>

fun py_getitem :: "py_value \<Rightarrow> string \<Rightarrow> py_error + py_value" where
  "py_getitem (PyDict d) k = (case map_of d k of None \<Rightarrow> Inl KeyError | Some v \<Rightarrow> Inr v)"
| "py_getitem v k = Inl TypeError"

text \<open>\<^verbatim>\<open>v[0]\<close>.\<close>

fun py_getitem0 :: "py_value \<Rightarrow> py_error + py_value" where
  "py_getitem0 (PyList []) = Inl IndexError"
| "py_getitem0 (PyList (x # xs)) = Inr x"
| "py_getitem0 (PyStr []) = Inl IndexError"
| "py_getitem0 (PyStr (c # cs)) = Inr (PyStr [c])"
| "py_getitem0 (PyDict d) = Inl KeyError"
| "py_getitem0 v = Inl TypeError"

text \<open>\<^verbatim>\<open>d.get(key, default)\<close> on a dictionary.\<close>

definition dict_get :: "(string \<times> py_value) list \<Rightarrow> string \<Rightarrow> py_value \<Rightarrow> py_value" where
  "dict_get d k dflt = (case map_of d k of None \<Rightarrow> dflt | Some v \<Rightarrow> v)"

text \<open>The elements a \<^verbatim>\<open>for\<close> loop over the value visits.\<close>

fun py_iter :: "py_value \<Rightarrow> py_error + py_value list" where
  "py_iter (PyList xs) = Inr xs"
| "py_iter (PyStr s) = Inr (map (\<lambda>c. PyStr [c]) s)"
| "py_iter (PyDict d) = Inr (map (\<lambda>e. PyStr (fst e)) d)"
| "py_iter v = Inl TypeError"

text \<open>\<^verbatim>\<open>[g['name'] for g in gs]\<close>: the first failing element raises.\<close>

fun genre_names :: "py_value list \<Rightarrow> py_error + py_value list" where
  "genre_names [] = Inr []"
| "genre_names (g # gs) =
     (case py_getitem g ''name'' of
        Inl e \<Rightarrow> Inl e
      | Inr v \<Rightarrow> (case genre_names gs of Inl e \<Rightarrow> Inl e | Inr vs \<Rightarrow> Inr (v # vs)))"

text \<open>\<^verbatim>\<open>' '.join(vs)\<close>: a \<^verbatim>\<open>TypeError\<close> unless every element is a string.\<close>

fun py_join_space :: "py_value list \<Rightarrow> py_error + string" where
  "py_join_space [] = Inr []"
| "py_join_space [PyStr s] = Inr s"
| "py_join_space (PyStr s # v # vs) =
     (case py_join_space (v # vs) of Inl e \<Rightarrow> Inl e | Inr t \<Rightarrow> Inr (s @ '' '' @ t))"
| "py_join_space (u # vs) = Inl TypeError"

text \<open>\<^verbatim>\<open>s.replace(', ', ' ')\<close>.\<close>

fun replace_comma_space :: "string \<Rightarrow> string" where
  "replace_comma_space (a # b # cs) =
     (if a = CHR '','' \<and> b = CHR '' '' then CHR '' '' # replace_comma_space cs
      else a # replace_comma_space (b # cs))"
| "replace_comma_space cs = cs"

text \<open>
  The two HTTP APIs. A request carries the API key and the query or the movie id;
  \<^verbatim>\<open>requests.get\<close> either raises a \<^verbatim>\<open>RequestException\<close> (connection error, timeout)
  or returns a response with a status code and a body. The body is \<open>None\<close> when it is
  not JSON: \<^verbatim>\<open>response.json()\<close> then raises \<^verbatim>\<open>requests.exceptions.JSONDecodeError\<close>,
  which is a \<^verbatim>\<open>RequestException\<close>.
\<close>

datatype http_request =
    TmdbSearch "string option" string
  | TmdbDetails "string option" py_value
  | OmdbTitle "string option" string

datatype http_outcome = Raises_RequestException | Response nat "py_value option"

text \<open>
  What the program reads from outside: the network, and Python's \<^verbatim>\<open>float\<close> on a string
  (\<open>None\<close> for a \<^verbatim>\<open>ValueError\<close>). The floats \<^verbatim>\<open>nan\<close> and \<^verbatim>\<open>inf\<close> are not modelled.
\<close>

record env =
  http_get :: "http_request \<Rightarrow> http_outcome"
  py_float :: "string \<Rightarrow> rat option"

text \<open>The normalized dictionary a provider lookup returns.\<close>

record movie_info =
  mi_title :: py_value
  mi_overview :: py_value
  mi_genres :: string
  mi_release_date :: py_value
  mi_vote_average :: py_value
  mi_poster_path :: py_value
  mi_id :: py_value
  mi_source :: string

text \<open>
  The mutable state: the two \<^verbatim>\<open>lru_cache\<close>s, most recently used entry first, and the
  log of the requests sent, most recent first.
\<close>

record world =
  tmdb_cache :: "(string \<times> movie_info option) list"
  omdb_cache :: "(string \<times> movie_info option) list"
  requests_log :: "http_request list"

definition requests_get :: "env \<Rightarrow> http_request \<Rightarrow> world \<Rightarrow> http_outcome \<times> world" where
  "requests_get e req w = (http_get e req, w\<lparr>requests_log := req # requests_log w\<rparr>)"

definition key_truthy :: "string option \<Rightarrow> bool" where
  "key_truthy k = (case k of None \<Rightarrow> False | Some s \<Rightarrow> s \<noteq> [])"

definition tmdb_movie_dict :: "py_value \<Rightarrow> py_value \<Rightarrow> py_error + movie_info" where
  "tmdb_movie_dict movie_id detailed_movie =
     (case detailed_movie of
        PyDict d \<Rightarrow>
          (case py_iter (dict_get d ''genres'' (PyList [])) of
             Inl e \<Rightarrow> Inl e
           | Inr gs \<Rightarrow>
               (case genre_names gs of
                  Inl e \<Rightarrow> Inl e
                | Inr names \<Rightarrow>
                    (case py_join_space names of
                       Inl e \<Rightarrow> Inl e
                     | Inr genres_str \<Rightarrow>
                         Inr \<lparr> mi_title = dict_get d ''title'' (PyStr []),
                               mi_overview = dict_get d ''overview'' (PyStr []),
                               mi_genres = genres_str,
                               mi_release_date = dict_get d ''release_date'' (PyStr []),
                               mi_vote_average = dict_get d ''vote_average'' (PyInt 0),
                               mi_poster_path = dict_get d ''poster_path'' (PyStr []),
                               mi_id = movie_id,
                               mi_source = ''TMDB'' \<rparr>)))
      | _ \<Rightarrow> Inl AttributeError)"

definition get_tmdb_movie_details ::
  "recommender \<Rightarrow> env \<Rightarrow> py_value \<Rightarrow> world \<Rightarrow> (py_error + movie_info option) \<times> world" where
  "get_tmdb_movie_details r e movie_id w =
     (case requests_get e (TmdbDetails (tmdb_api_key r) movie_id) w of
        (Raises_RequestException, w1) \<Rightarrow> (Inr None, w1)
      | (Response status_code body, w1) \<Rightarrow>
          if status_code = 200 then
            (case body of
               None \<Rightarrow> (Inr None, w1)
             | Some detailed_movie \<Rightarrow> (map_sum id Some (tmdb_movie_dict movie_id detailed_movie), w1))
          else (Inr None, w1))"

text \<open>\<^verbatim>\<open>search_movie_tmdb\<close> without its \<^verbatim>\<open>lru_cache\<close> decorator.\<close>

definition search_movie_tmdb_uncached ::
  "recommender \<Rightarrow> env \<Rightarrow> string \<Rightarrow> world \<Rightarrow> (py_error + movie_info option) \<times> world" where
  "search_movie_tmdb_uncached r e movie_name w =
     (if \<not> key_truthy (tmdb_api_key r) then (Inr None, w)
      else
        (case requests_get e (TmdbSearch (tmdb_api_key r) movie_name) w of
           (Raises_RequestException, w1) \<Rightarrow> (Inr None, w1)
         | (Response status_code body, w1) \<Rightarrow>
             if status_code = 200 then
               (case body of
                  None \<Rightarrow> (Inr None, w1)
                | Some data \<Rightarrow>
                    (case py_getitem data ''results'' of
                       Inl err \<Rightarrow> (Inl err, w1)
                     | Inr results \<Rightarrow>
                         if py_truthy results then
                           (case py_getitem0 results of
                              Inl err \<Rightarrow> (Inl err, w1)
                            | Inr movie \<Rightarrow>
                                (case py_getitem movie ''id'' of
                                   Inl err \<Rightarrow> (Inl err, w1)
                                 | Inr movie_id \<Rightarrow> get_tmdb_movie_details r e movie_id w1))
                         else (Inr None, w1)))
             else (Inr None, w1)))"

definition parse_imdb_rating :: "env \<Rightarrow> py_value \<Rightarrow> rat" where
  "parse_imdb_rating e rating_str =
     (case rating_str of
        PyStr s \<Rightarrow> if s \<noteq> ''N/A'' then (case py_float e s of Some x \<Rightarrow> x | None \<Rightarrow> 0) else 0
      | PyInt i \<Rightarrow> of_int i
      | PyFloat x \<Rightarrow> x
      | PyBool b \<Rightarrow> (if b then 1 else 0)
      | _ \<Rightarrow> 0)"

definition omdb_movie_dict :: "env \<Rightarrow> string \<Rightarrow> py_value \<Rightarrow> py_error + movie_info option" where
  "omdb_movie_dict e movie_name data =
     (case data of
        PyDict d \<Rightarrow>
          if dict_get d ''Response'' PyNone = PyStr ''True'' then
            (case dict_get d ''Genre'' (PyStr []) of
               PyStr g \<Rightarrow>
                 Inr (Some \<lparr> mi_title = dict_get d ''Title'' (PyStr movie_name),
                             mi_overview = dict_get d ''Plot'' (PyStr []),
                             mi_genres = replace_comma_space g,
                             mi_release_date = dict_get d ''Year'' (PyStr []),
                             mi_vote_average =
                               PyFloat (parse_imdb_rating e (dict_get d ''imdbRating'' (PyStr ''0''))),
                             mi_poster_path = dict_get d ''Poster'' (PyStr []),
                             mi_id = dict_get d ''imdbID'' (PyStr []),
                             mi_source = ''OMDB'' \<rparr>)
             | _ \<Rightarrow> Inl AttributeError)
          else Inr None
      | _ \<Rightarrow> Inl AttributeError)"

text \<open>\<^verbatim>\<open>search_movie_omdb\<close> without its \<^verbatim>\<open>lru_cache\<close> decorator.\<close>

definition search_movie_omdb_uncached ::
  "recommender \<Rightarrow> env \<Rightarrow> string \<Rightarrow> world \<Rightarrow> (py_error + movie_info option) \<times> world" where
  "search_movie_omdb_uncached r e movie_name w =
     (if \<not> key_truthy (omdb_api_key r) then (Inr None, w)
      else
        (case requests_get e (OmdbTitle (omdb_api_key r) movie_name) w of
           (Raises_RequestException, w1) \<Rightarrow> (Inr None, w1)
         | (Response status_code body, w1) \<Rightarrow>
             if status_code = 200 then
               (case body of
                  None \<Rightarrow> (Inr None, w1)
                | Some data \<Rightarrow> (omdb_movie_dict e movie_name data, w1))
             else (Inr None, w1)))"

text \<open>
  \<^verbatim>\<open>functools.lru_cache(maxsize)\<close> around a function of the query string: a hit returns
  the stored value and makes the entry the most recent one; a miss calls the function and,
  when it returns, stores the value (also \<open>None\<close>), evicting the least recently used entry
  of a full cache. A call that raises stores nothing. The key is the argument as passed.
\<close>

definition lru_cached ::
  "nat \<Rightarrow> (world \<Rightarrow> (string \<times> 'v) list) \<Rightarrow> ((string \<times> 'v) list \<Rightarrow> world \<Rightarrow> world) \<Rightarrow>
   (string \<Rightarrow> world \<Rightarrow> (py_error + 'v) \<times> world) \<Rightarrow> string \<Rightarrow> world \<Rightarrow> (py_error + 'v) \<times> world" where
  "lru_cached maxsize get_cache put_cache f k w =
     (case map_of (get_cache w) k of
        Some v \<Rightarrow> (Inr v, put_cache ((k, v) # filter (\<lambda>en. fst en \<noteq> k) (get_cache w)) w)
      | None \<Rightarrow>
          (case f k w of
             (Inl err, w1) \<Rightarrow> (Inl err, w1)
           | (Inr v, w1) \<Rightarrow>
               (Inr v,
                put_cache ((k, v) # (if maxsize \<le> length (get_cache w1)
                                      then butlast (get_cache w1) else get_cache w1)) w1)))"

definition search_movie_tmdb ::
  "recommender \<Rightarrow> env \<Rightarrow> string \<Rightarrow> world \<Rightarrow> (py_error + movie_info option) \<times> world" where
  "search_movie_tmdb r e =
     lru_cached 100 tmdb_cache (\<lambda>c w. w\<lparr>tmdb_cache := c\<rparr>) (search_movie_tmdb_uncached r e)"

definition search_movie_omdb ::
  "recommender \<Rightarrow> env \<Rightarrow> string \<Rightarrow> world \<Rightarrow> (py_error + movie_info option) \<times> world" where
  "search_movie_omdb r e =
     lru_cached 100 omdb_cache (\<lambda>c w. w\<lparr>omdb_cache := c\<rparr>) (search_movie_omdb_uncached r e)"

section \<open>The resolver\<close>

text \<open>The \<^verbatim>\<open>searched_movie\<close> built from a catalog row.\<close>

record dataset_movie =
  sm_title :: "string option"
  sm_overview :: string
  sm_genres :: "string option"
  sm_release_date :: string
  sm_vote_average :: "rat option"
  sm_poster_path :: string
  sm_source :: string

datatype movie_dict = From_dataset dataset_movie | From_provider movie_info

record resolution =
  status :: string
  searched_movie :: "movie_dict option"
  recommendations :: "recommendation list"
  message :: string

definition dataset_dict :: "recommender \<Rightarrow> movie_row \<Rightarrow> dataset_movie" where
  "dataset_dict r movie =
     \<lparr> sm_title = title movie,
       sm_overview = overview movie,
       sm_genres = genres movie,
       sm_release_date = release_date movie,
       sm_vote_average = row_vote_average r movie,
       sm_poster_path = poster_path movie,
       sm_source = ''dataset'' \<rparr>"

text \<open>
  \<^verbatim>\<open>self.search_movie_tmdb(movie_name) or self.search_movie_omdb(movie_name)\<close>: the
  secondary provider is asked only when the primary returned \<^verbatim>\<open>None\<close>.
\<close>

definition search_providers ::
  "recommender \<Rightarrow> env \<Rightarrow> string \<Rightarrow> world \<Rightarrow> (py_error + movie_info option) \<times> world" where
  "search_providers r e movie_name w =
     (case search_movie_tmdb r e movie_name w of
        (Inl err, w1) \<Rightarrow> (Inl err, w1)
      | (Inr (Some movie_info), w1) \<Rightarrow> (Inr (Some movie_info), w1)
      | (Inr None, w1) \<Rightarrow> search_movie_omdb r e movie_name w1)"

text \<open>
  Lines 228 to 253 of \<^verbatim>\<open>get_recommendations\<close>: the result dictionary before the
  recommendations are stored in it, and the candidate list \<^verbatim>\<open>recs\<close>.
\<close>

definition resolve_branch ::
  "recommender \<Rightarrow> env \<Rightarrow> string \<Rightarrow> int \<Rightarrow> world \<Rightarrow>
   (py_error + resolution \<times> recommendation list) \<times> world" where
  "resolve_branch r e movie_name n_recommendations w =
     (case find_movie_in_dataset r movie_name of
        Some movie_idx \<Rightarrow>
          (Inr (\<lparr> status = ''success'',
                  searched_movie = Some (From_dataset (dataset_dict r (movies_df r ! movie_idx))),
                  recommendations = [],
                  message = ''Movie found in dataset'' \<rparr>,
                recommend_for_existing_movie r movie_idx (n_recommendations * 2)), w)
      | None \<Rightarrow>
          (case search_providers r e movie_name w of
             (Inl err, w1) \<Rightarrow> (Inl err, w1)
           | (Inr (Some movie_info), w1) \<Rightarrow>
               (Inr (\<lparr> status = ''success'',
                       searched_movie = Some (From_provider movie_info),
                       recommendations = [],
                       message = ''Movie found via '' @ mi_source movie_info @ '' API'' \<rparr>,
                     get_popular_movies r (n_recommendations * 2)), w1)
           | (Inr None, w1) \<Rightarrow>
               (Inr (\<lparr> status = ''not_found'',
                       searched_movie = None,
                       recommendations = [],
                       message = ''Movie '' @ [CHR 0x22] @ movie_name @ [CHR 0x22] @ '' not found'' \<rparr>,
                     get_popular_movies r n_recommendations), w1)))"

text \<open>
  The generator \<^verbatim>\<open>any(genre.lower() in rec.get('genres', '').lower() for genre in
  preference_genres)\<close>: nothing is evaluated for an empty list; otherwise the first
  element already calls \<^verbatim>\<open>.lower()\<close> on the genres cell, and a NaN cell (a float) raises
  \<^verbatim>\<open>AttributeError\<close>. The default of \<^verbatim>\<open>get\<close> is not used: the key is always there.
\<close>

fun any_genre :: "string list \<Rightarrow> recommendation \<Rightarrow> py_error + bool" where
  "any_genre [] rc = Inr False"
| "any_genre (genre # gs) rc =
     (case rec_genres rc of
        None \<Rightarrow> Inl AttributeError
      | Some g \<Rightarrow> if py_in (lower genre) (lower g) then Inr True else any_genre gs rc)"

text \<open>The list comprehension \<^verbatim>\<open>filtered_recs\<close>: the first raising element raises.\<close>

fun filtered_recs :: "string list \<Rightarrow> recommendation list \<Rightarrow> py_error + recommendation list" where
  "filtered_recs preference_genres [] = Inr []"
| "filtered_recs preference_genres (rc # recs) =
     (case any_genre preference_genres rc of
        Inl err \<Rightarrow> Inl err
      | Inr keep \<Rightarrow>
          (case filtered_recs preference_genres recs of
             Inl err \<Rightarrow> Inl err
           | Inr kept \<Rightarrow> Inr (if keep then rc # kept else kept)))"

text \<open>Lines 255 to 258 of \<^verbatim>\<open>get_recommendations\<close>.\<close>

definition genre_filter :: "string list \<Rightarrow> recommendation list \<Rightarrow> py_error + recommendation list" where
  "genre_filter preference_genres recs =
     (if preference_genres \<noteq> [] then
        (case filtered_recs preference_genres recs of
           Inl err \<Rightarrow> Inl err
         | Inr kept \<Rightarrow> Inr (if kept \<noteq> [] then kept else recs))
      else Inr recs)"

definition get_recommendations ::
  "recommender \<Rightarrow> env \<Rightarrow> string \<Rightarrow> int \<Rightarrow> string list option \<Rightarrow> world \<Rightarrow>
   (py_error + resolution) \<times> world" where
  "get_recommendations r e movie_name n_recommendations preference_genres w =
     (let prefs = (case preference_genres of None \<Rightarrow> [] | Some gs \<Rightarrow> gs) in
      case resolve_branch r e movie_name n_recommendations w of
        (Inl err, w1) \<Rightarrow> (Inl err, w1)
      | (Inr (result, recs), w1) \<Rightarrow>
          (case genre_filter prefs recs of
             Inl err \<Rightarrow> (Inl err, w1)
           | Inr kept \<Rightarrow>
               (Inr (result\<lparr>recommendations := py_slice_to n_recommendations kept\<rparr>), w1)))"


section \<open>The HTTP layer\<close>

text \<open>
  Lines 115 to 117 of \<^verbatim>\<open>api_search\<close>: a count that is not an integer of 1 to 50 becomes
  10. A JSON boolean is an \<^verbatim>\<open>int\<close> for \<^verbatim>\<open>isinstance\<close>, \<^verbatim>\<open>True\<close> counting as 1.
\<close>

definition validate_count :: "py_value \<Rightarrow> int" where
  "validate_count n_recommendations =
     (case n_recommendations of
        PyInt i \<Rightarrow> if 1 \<le> i \<and> i \<le> 50 then i else 10
      | PyBool b \<Rightarrow> if b then 1 else 10
      | _ \<Rightarrow> 10)"

record api_response =
  resp_movie :: "movie_dict option"
  resp_recommendations :: "recommendation list"
  resp_status :: string

datatype http_reply =
    Reply_200 api_response
  | Reply_400 string
  | Reply_500
  | Reply_503

text \<open>
  \<^verbatim>\<open>api_search\<close> for a POST request whose JSON body is \<open>data\<close> (\<open>None\<close> when there is
  none). Any exception is answered with status 500. The recommender object has no
  attribute \<^verbatim>\<open>_apply_genre_preferences\<close>, so the preferred genres of the request are
  replaced by \<^verbatim>\<open>None\<close>.
\<close>

definition api_search ::
  "recommender option \<Rightarrow> env \<Rightarrow> py_value option \<Rightarrow> world \<Rightarrow> http_reply \<times> world" where
  "api_search movie_recommender e data w =
     (case data of
        Some (PyDict d) \<Rightarrow>
          if d = [] \<or> map_of d ''movie_name'' = None
          then (Reply_400 ''Movie name is required'', w)
          else
            (case dict_get d ''movie_name'' PyNone of
               PyStr s \<Rightarrow>
                 (let movie_name = strip s;
                      n_recommendations = dict_get d ''n_recommendations'' (PyInt 10)
                  in if movie_name = [] then (Reply_400 ''Movie name cannot be empty'', w)
                     else
                       (case movie_recommender of
                          None \<Rightarrow> (Reply_503, w)
                        | Some r \<Rightarrow>
                            (case get_recommendations r e movie_name
                                    (validate_count n_recommendations) None w of
                               (Inl err, w1) \<Rightarrow> (Reply_500, w1)
                             | (Inr results, w1) \<Rightarrow>
                                 (Reply_200 \<lparr> resp_movie = searched_movie results,
                                              resp_recommendations = recommendations results,
                                              resp_status = status results \<rparr>, w1))))
             | _ \<Rightarrow> (Reply_500, w))
      | Some (PyList xs) \<Rightarrow>
          if PyStr ''movie_name'' \<in> set xs then (Reply_500, w)
          else (Reply_400 ''Movie name is required'', w)
      | Some (PyStr s) \<Rightarrow>
          if py_in ''movie_name'' s then (Reply_500, w)
          else (Reply_400 ''Movie name is required'', w)
      | Some v \<Rightarrow>
          if py_truthy v then (Reply_500, w) else (Reply_400 ''Movie name is required'', w)
      | None \<Rightarrow> (Reply_400 ''Movie name is required'', w))"

section \<open>Notions of the specification\<close>

text \<open>The normalized title of a row: lower-cased and trimmed; none for a null title.\<close>

definition normalized_title :: "movie_row \<Rightarrow> string option" where
  "normalized_title row = map_option (\<lambda>t. strip (lower t)) (title row)"

text \<open>
  A recommendation matches the preferred genres when its genre string contains one of
  them, both lower-cased. A recommendation without a genre string matches nothing.
\<close>

definition genre_matches :: "string list \<Rightarrow> recommendation \<Rightarrow> bool" where
  "genre_matches preference_genres rc =
     (case rec_genres rc of
        None \<Rightarrow> False
      | Some g \<Rightarrow> list_ex (\<lambda>genre. py_in (lower genre) (lower g)) preference_genres)"


text \<open>
  Ranking orders. \<open>ranks_before col tie a b\<close>: the cell of \<open>a\<close> is larger than the cell
  of \<open>b\<close>, or \<open>b\<close> has no value (NaN) and \<open>a\<close> has one, or the two cells are equal (or
  both NaN) and \<open>tie a b\<close> holds. \<open>index_order\<close> is catalog order.
\<close>

definition index_order :: "nat \<times> 'a \<Rightarrow> nat \<times> 'a \<Rightarrow> bool" where
  "index_order a b = (fst a < fst b)"

definition ranks_before :: "('a \<Rightarrow> rat option) \<Rightarrow> ('a \<Rightarrow> 'a \<Rightarrow> bool) \<Rightarrow> 'a \<Rightarrow> 'a \<Rightarrow> bool" where
  "ranks_before col tie a b =
     (case col a of
        None \<Rightarrow> col b = None \<and> tie a b
      | Some x \<Rightarrow> (case col b of None \<Rightarrow> True | Some y \<Rightarrow> y < x \<or> (y = x \<and> tie a b)))"

definition by_rating :: "nat \<times> movie_row \<Rightarrow> nat \<times> movie_row \<Rightarrow> bool" where
  "by_rating = ranks_before col_vote_average index_order"

definition by_votes :: "nat \<times> movie_row \<Rightarrow> nat \<times> movie_row \<Rightarrow> bool" where
  "by_votes = ranks_before col_vote_count by_rating"

definition highest_rated :: "recommender \<Rightarrow> int \<Rightarrow> frame" where
  "highest_rated r k = nlargest k col_vote_average (df_frame r)"

text \<open>
  The rows the cluster ranker chooses from: the catalog rows whose stored label is the
  label predicted for the queried row, without the queried row.
\<close>

definition cluster_members :: "recommender \<Rightarrow> kmeans \<Rightarrow> nat \<Rightarrow> frame" where
  "cluster_members r km movie_idx =
     filter (\<lambda>x. labels km ! fst x = predict km (tfidf_matrix r ! movie_idx) \<and> fst x \<noteq> movie_idx)
       (df_frame r)"

text \<open>The whole frame in the order \<^verbatim>\<open>nlargest\<close> takes its rows from.\<close>

definition ranked :: "('a \<Rightarrow> rat option) \<Rightarrow> 'a list \<Rightarrow> 'a list" where
  "ranked col df =
     sort_key (\<lambda>x. - the (col x)) (filter (\<lambda>x. col x \<noteq> None) df) @ filter (\<lambda>x. col x = None) df"

section \<open>Example data\<close>

text \<open>
  A catalog of four rows with both numeric columns, a cluster model whose prediction for
  every embedding is 1, a catalog with a null genres cell, and three networks: one that is down, one where TMDB knows the
  title, and one that answers with JSON of an unexpected shape.
\<close>

definition ex_row :: "string \<Rightarrow> string \<Rightarrow> rat \<Rightarrow> rat \<Rightarrow> movie_row" where
  "ex_row t g va vc =
     \<lparr> title = Some t, overview = [], genres = Some g, release_date = [],
       vote_average = Some va, vote_count = Some vc, poster_path = [] \<rparr>"

definition ex_kmeans :: kmeans where
  "ex_kmeans = \<lparr> predict = (\<lambda>e. 1), labels = [0, 1, 1, 0] \<rparr>"

definition ex_recommender :: recommender where
  "ex_recommender =
     \<lparr> movies_df = [ex_row ''Alpha'' ''Drama'' 9 1, ex_row ''Beta'' ''Action'' 8 100,
                    ex_row ''alpha '' ''Comedy'' 7 5, ex_row '' '' ''Drama'' 6 50],
       has_vote_average = True,
       has_vote_count = True,
       tfidf_matrix = [[0], [1], [2], [3]],
       kmeans_model = Some ex_kmeans,
       tmdb_api_key = Some ''key'',
       omdb_api_key = None \<rparr>"

definition ex_null_genres :: recommender where
  "ex_null_genres =
     ex_recommender\<lparr>movies_df := [ex_row ''Alpha'' ''Drama'' 9 1,
                                   (ex_row ''Beta'' [] 8 100)\<lparr>genres := None\<rparr>]\<rparr>"

definition ex_no_model :: recommender where
  "ex_no_model = ex_recommender\<lparr>kmeans_model := None\<rparr>"


definition ex_null_first :: recommender where
  "ex_null_first =
     ex_recommender\<lparr>movies_df := [(ex_row [] [] 0 0)\<lparr>title := None\<rparr>, ex_row ''Alpha'' ''Drama'' 9 1]\<rparr>"

definition ex_world :: world where
  "ex_world = \<lparr> tmdb_cache = [], omdb_cache = [], requests_log = [] \<rparr>"

definition ex_env_down :: env where
  "ex_env_down = \<lparr> http_get = (\<lambda>req. Raises_RequestException), py_float = (\<lambda>s. None) \<rparr>"


definition ex_both_keys :: recommender where
  "ex_both_keys = ex_recommender\<lparr>omdb_api_key := Some ''key2''\<rparr>"

definition ex_env_malformed :: env where
  "ex_env_malformed =
     \<lparr> http_get = (\<lambda>req. case req of
          TmdbSearch k q \<Rightarrow> Response 200 (Some (PyDict []))
        | TmdbDetails k i \<Rightarrow> Response 200 (Some (PyDict []))
        | OmdbTitle k q \<Rightarrow>
            Response 200 (Some (PyDict [(''Response'', PyStr ''True''), (''Title'', PyStr q),
                                        (''Genre'', PyNone)]))),
       py_float = (\<lambda>s. None) \<rparr>"

section \<open>Properties of the string operations\<close>

lemma is_space_char_lower: "is_space (char_lower c) = is_space c"
  by (auto simp: is_space_def char_lower_def Let_def)

lemma lower_idem: "lower (lower s) = lower s"
  by (induction s) (auto simp: lower_def char_lower_def Let_def)

lemma dropWhile_space_lower: "dropWhile is_space (lower s) = lower (dropWhile is_space s)"
  by (simp add: lower_def dropWhile_map comp_def is_space_char_lower)

lemma rev_lower: "rev (lower s) = lower (rev s)"
  by (simp add: lower_def rev_map)

lemma strip_lower: "strip (lower s) = lower (strip s)"
  by (simp add: strip_def dropWhile_space_lower rev_lower)

lemma dropWhile_space_strip: "dropWhile is_space (strip s) = strip s"
proof -
  define u where "u = dropWhile is_space s"
  have hd_u: "u \<noteq> [] \<Longrightarrow> \<not> is_space (hd u)"
    unfolding u_def by (simp add: hd_dropWhile)
  define v where "v = rev (dropWhile is_space (rev u))"
  have "\<exists>ws. u = v @ ws"
    unfolding v_def by (metis rev_append rev_rev_ident takeWhile_dropWhile_id)
  then obtain ws where uv: "u = v @ ws" ..
  have "v = [] \<or> \<not> is_space (hd v)"
  proof (cases v)
    case Nil
    then show ?thesis by simp
  next
    case (Cons a as)
    with uv hd_u show ?thesis by auto
  qed
  then have "dropWhile is_space v = v"
    by (cases v) auto
  then show ?thesis
    by (simp add: strip_def u_def v_def)
qed

lemma strip_idem: "strip (strip s) = strip s"
proof -
  have "strip (strip s) = rev (dropWhile is_space (rev (strip s)))"
    by (simp add: strip_def [of "strip s"] dropWhile_space_strip)
  also have "\<dots> = strip s"
    by (simp add: strip_def)
  finally show ?thesis .
qed

lemma normalize_idem: "strip (lower (strip (lower s))) = strip (lower s)"
  by (simp add: strip_lower lower_idem strip_idem)

section \<open>Catalog lookup\<close>

lemma hd_masked_enumerate:
  "list_ex id bs \<Longrightarrow>
   \<exists>j<length bs. hd (map fst (filter snd (enumerate n bs))) = n + j \<and> bs ! j \<and> (\<forall>k<j. \<not> bs ! k)"
proof (induction bs arbitrary: n)
  case Nil
  then show ?case by simp
next
  case (Cons b bs)
  show ?case
  proof (cases b)
    case True
    then show ?thesis by (intro exI [of _ 0]) simp
  next
    case False
    with Cons.prems have "list_ex id bs" by (simp add: list_ex_iff)
    from Cons.IH [OF this, of "Suc n"] obtain j where
      j: "j < length bs" "hd (map fst (filter snd (enumerate (Suc n) bs))) = Suc n + j"
         "bs ! j" "\<forall>k<j. \<not> bs ! k"
      by blast
    have "\<forall>k<Suc j. \<not> (b # bs) ! k"
      using False j(4) by (auto simp: nth_Cons split: nat.splits)
    with j False show ?thesis
      by (intro exI [of _ "Suc j"]) simp
  qed
qed

lemma masked_index_first:
  assumes "mask_any bs"
  obtains j where "hd (masked_index bs) = j" "j < length bs" "bs ! j" "\<forall>k<j. \<not> bs ! k"
proof -
  from assms have "list_ex id bs" by (simp add: mask_any_def)
  from hd_masked_enumerate [OF this, of 0] obtain j where
    "j < length bs" "hd (map fst (filter snd (enumerate 0 bs))) = 0 + j" "bs ! j" "\<forall>k<j. \<not> bs ! k"
    by blast
  then show thesis
    using that [of j] by (simp add: masked_index_def)
qed

lemma mask_any_iff: "mask_any bs \<longleftrightarrow> (\<exists>i<length bs. bs ! i)"
  by (simp add: mask_any_def list_ex_length)

lemma exact_mask_nth:
  "i < length (movies_df r) \<Longrightarrow> exact_mask r q ! i = (normalized_title (movies_df r ! i) = Some q)"
  by (auto simp: exact_mask_def normalized_title_def split: option.splits)

lemma length_exact_mask: "length (exact_mask r q) = length (movies_df r)"
  by (simp add: exact_mask_def)

text \<open>
  Claim C7. For every catalog row with a title, the lookup of the row's normalized
  (lower-cased, trimmed) title succeeds in the exact step and returns the first row in
  catalog order whose normalized title is the same; that is the row itself when no earlier
  row has the same normalized title.
\<close>

theorem find_exact_first_occurrence:
  assumes i: "i < length (movies_df r)"
    and t: "title (movies_df r ! i) = Some t"
  shows "\<exists>j. find_movie_in_dataset r (strip (lower t)) = Some j \<and> j \<le> i
           \<and> normalized_title (movies_df r ! j) = normalized_title (movies_df r ! i)
           \<and> (\<forall>k<j. normalized_title (movies_df r ! k) \<noteq> normalized_title (movies_df r ! i))
           \<and> ((\<forall>k<i. normalized_title (movies_df r ! k) \<noteq> normalized_title (movies_df r ! i))
                \<longrightarrow> j = i)"
proof -
  define q where "q = strip (lower t)"
  have nt: "normalized_title (movies_df r ! i) = Some q"
    using t by (simp add: normalized_title_def q_def)
  have q: "strip (lower q) = q"
    by (simp add: q_def normalize_idem)
  have "exact_mask r q ! i"
    using i nt by (simp add: exact_mask_nth)
  then have any: "mask_any (exact_mask r q)"
    using i by (auto simp: mask_any_iff length_exact_mask)
  then obtain j where j: "hd (masked_index (exact_mask r q)) = j" "j < length (exact_mask r q)"
    "exact_mask r q ! j" "\<forall>k<j. \<not> exact_mask r q ! k"
    by (rule masked_index_first)
  have found: "find_movie_in_dataset r q = Some j"
    using any j(1) by (simp add: find_movie_in_dataset_def q)
  have jlen: "j < length (movies_df r)"
    using j(2) by (simp add: length_exact_mask)
  have ji: "j \<le> i"
  proof (rule ccontr)
    assume "\<not> j \<le> i"
    then have "i < j" by simp
    with j(4) have "\<not> exact_mask r q ! i" by blast
    with \<open>exact_mask r q ! i\<close> show False by contradiction
  qed
  have nj: "normalized_title (movies_df r ! j) = Some q"
    using j(3) jlen by (simp add: exact_mask_nth)
  have before: "\<forall>k<j. normalized_title (movies_df r ! k) \<noteq> Some q"
  proof (intro allI impI)
    fix k assume "k < j"
    with j(4) jlen have "\<not> exact_mask r q ! k" "k < length (movies_df r)" by auto
    then show "normalized_title (movies_df r ! k) \<noteq> Some q"
      by (simp add: exact_mask_nth)
  qed
  have first: "(\<forall>k<i. normalized_title (movies_df r ! k) \<noteq> Some q) \<longrightarrow> j = i"
  proof
    assume a: "\<forall>k<i. normalized_title (movies_df r ! k) \<noteq> Some q"
    show "j = i"
    proof (rule ccontr)
      assume "j \<noteq> i"
      with ji have "j < i" by simp
      with a nj show False by blast
    qed
  qed
  from found ji nj before first
  have "find_movie_in_dataset r q = Some j \<and> j \<le> i
           \<and> normalized_title (movies_df r ! j) = Some q
           \<and> (\<forall>k<j. normalized_title (movies_df r ! k) \<noteq> Some q)
           \<and> ((\<forall>k<i. normalized_title (movies_df r ! k) \<noteq> Some q) \<longrightarrow> j = i)"
    by (intro conjI)
  then show ?thesis
    unfolding nt q_def [symmetric] by (rule exI [of _ j])
qed

theorem find_exact_first_occurrence_witness:
  "2 < length (movies_df ex_recommender)
   \<and> title (movies_df ex_recommender ! 2) = Some ''alpha ''
   \<and> (\<exists>j. find_movie_in_dataset ex_recommender ''alpha'' = Some j \<and> j \<le> 2
          \<and> normalized_title (movies_df ex_recommender ! j) = Some ''alpha''
          \<and> (\<forall>k<j. normalized_title (movies_df ex_recommender ! k) \<noteq> Some ''alpha''))"
proof -
  have h1: "2 < length (movies_df ex_recommender)"
    by (simp add: ex_recommender_def)
  have h2: "title (movies_df ex_recommender ! 2) = Some ''alpha ''"
    by (simp add: ex_recommender_def ex_row_def)
  have q: "strip (lower ''alpha '') = ''alpha''"
    by code_simp
  have n2: "normalized_title (movies_df ex_recommender ! 2) = Some ''alpha''"
    by (simp add: normalized_title_def h2 q)
  from find_exact_first_occurrence [OF h1 h2] show ?thesis
    unfolding q n2 using h1 h2 by blast
qed

lemma strip_lower_blank: "\<forall>c\<in>set s. is_space c \<Longrightarrow> strip (lower s) = []"
proof -
  assume "\<forall>c\<in>set s. is_space c"
  then have "dropWhile is_space s = []" by (induction s) simp_all
  then have "strip s = []" by (simp only: strip_def rev.simps dropWhile.simps)
  then have "lower (strip s) = []" by (simp add: lower_def)
  then show ?thesis by (simp only: strip_lower)
qed

lemma length_partial_mask: "length (partial_mask r q) = length (movies_df r)"
  by (simp add: partial_mask_def)

lemma partial_mask_empty_nth:
  "i < length (movies_df r) \<Longrightarrow> partial_mask r [] ! i = (title (movies_df r ! i) \<noteq> None)"
  by (simp add: partial_mask_def py_in_def split: option.splits)

lemma find_movie_exact:
  assumes "mask_any (exact_mask r (strip (lower movie_name)))"
  obtains j where "find_movie_in_dataset r movie_name = Some j" "j < length (movies_df r)"
    "normalized_title (movies_df r ! j) = Some (strip (lower movie_name))"
    "\<forall>k<j. normalized_title (movies_df r ! k) \<noteq> Some (strip (lower movie_name))"
proof -
  define q where "q = strip (lower movie_name)"
  from assms obtain j where j: "hd (masked_index (exact_mask r q)) = j"
    "j < length (exact_mask r q)" "exact_mask r q ! j" "\<forall>k<j. \<not> exact_mask r q ! k"
    unfolding q_def [symmetric] by (rule masked_index_first)
  have 1: "find_movie_in_dataset r movie_name = Some j"
    using assms j(1) by (simp add: find_movie_in_dataset_def q_def)
  have 2: "j < length (movies_df r)"
    using j(2) by (simp add: length_exact_mask)
  have 3: "normalized_title (movies_df r ! j) = Some q"
    using j(3) 2 by (simp add: exact_mask_nth)
  have 4: "\<forall>k<j. normalized_title (movies_df r ! k) \<noteq> Some q"
  proof (intro allI impI)
    fix k assume "k < j"
    with j(4) 2 have "\<not> exact_mask r q ! k" "k < length (movies_df r)" by auto
    then show "normalized_title (movies_df r ! k) \<noteq> Some q"
      by (simp add: exact_mask_nth)
  qed
  from 1 2 3 4 show thesis
    unfolding q_def by (rule that)
qed

lemma no_exact_match:
  assumes "\<not> mask_any (exact_mask r q)"
  shows "\<forall>row\<in>set (movies_df r). normalized_title row \<noteq> Some q"
proof
  fix row assume "row \<in> set (movies_df r)"
  then obtain i where i: "i < length (movies_df r)" "movies_df r ! i = row"
    by (auto simp: in_set_conv_nth)
  from assms i(1) have "\<not> exact_mask r q ! i"
    by (simp add: mask_any_iff length_exact_mask)
  with i show "normalized_title row \<noteq> Some q"
    by (simp add: exact_mask_nth)
qed

lemma any_genre_raises_AttributeError: "any_genre gs rc = Inl err \<Longrightarrow> err = AttributeError"
  by (induction gs) (auto split: option.splits if_splits)



lemma any_genre_with_genres:
  "rec_genres rc \<noteq> None \<Longrightarrow> any_genre gs rc = Inr (genre_matches gs rc)"
  by (induction gs) (auto simp: genre_matches_def)

lemma any_genre_null: "gs \<noteq> [] \<Longrightarrow> rec_genres rc = None \<Longrightarrow> any_genre gs rc = Inl AttributeError"
  by (cases gs) auto

lemma filtered_recs_with_genres:
  "\<forall>rc\<in>set recs. rec_genres rc \<noteq> None \<Longrightarrow>
     filtered_recs gs recs = Inr (filter (genre_matches gs) recs)"
  by (induction recs) (auto simp: any_genre_with_genres)

lemma filtered_recs_null:
  "gs \<noteq> [] \<Longrightarrow> rc \<in> set recs \<Longrightarrow> rec_genres rc = None \<Longrightarrow>
     filtered_recs gs recs = Inl AttributeError"
proof (induction recs)
  case Nil
  then show ?case by simp
next
  case (Cons a recs)
  show ?case
  proof (cases "any_genre gs a")
    case (Inl err)
    then show ?thesis
      using any_genre_raises_AttributeError [OF Inl] by simp
  next
    case (Inr keep)
    with Cons.prems have "rc \<noteq> a"
      using any_genre_null [of gs a] by auto
    with Cons have "filtered_recs gs recs = Inl AttributeError" by simp
    with Inr show ?thesis by simp
  qed
qed

lemma genre_filter_null:
  "gs \<noteq> [] \<Longrightarrow> rc \<in> set recs \<Longrightarrow> rec_genres rc = None \<Longrightarrow>
     genre_filter gs recs = Inl AttributeError"
  by (simp add: genre_filter_def filtered_recs_null)

lemma genre_filter_with_genres:
  "\<forall>rc\<in>set recs. rec_genres rc \<noteq> None \<Longrightarrow>
     genre_filter gs recs =
       Inr (if gs \<noteq> [] \<and> list_ex (genre_matches gs) recs
            then filter (genre_matches gs) recs else recs)"
  by (auto simp: genre_filter_def filtered_recs_with_genres list_ex_iff filter_empty_conv)

lemma filtered_recs_subset: "filtered_recs gs recs = Inr kept \<Longrightarrow> set kept \<subseteq> set recs"
  by (induction recs arbitrary: kept) (auto split: sum.splits if_splits)

lemma set_genre_filter: "genre_filter gs recs = Inr kept \<Longrightarrow> set kept \<subseteq> set recs"
  by (auto simp: genre_filter_def split: if_splits sum.splits dest: filtered_recs_subset)

lemma resolve_branch_local:
  assumes "find_movie_in_dataset r movie_name = Some j"
  shows "resolve_branch r e movie_name n w =
           (Inr (\<lparr> status = ''success'',
                   searched_movie = Some (From_dataset (dataset_dict r (movies_df r ! j))),
                   recommendations = [],
                   message = ''Movie found in dataset'' \<rparr>,
                 recommend_for_existing_movie r j (n * 2)), w)"
  using assms by (simp add: resolve_branch_def)

lemma get_recommendations_of_branch:
  assumes "resolve_branch r e movie_name n w = (Inr (result, recs), w1)"
  shows "get_recommendations r e movie_name n prefs w =
           (case genre_filter (case prefs of None \<Rightarrow> [] | Some gs \<Rightarrow> gs) recs of
              Inl err \<Rightarrow> (Inl err, w1)
            | Inr kept \<Rightarrow> (Inr (result\<lparr>recommendations := py_slice_to n kept\<rparr>), w1))"
  using assms by (simp add: get_recommendations_def)


lemma genre_filter_no_preference: "genre_filter [] recs = Inr recs"
  by (simp add: genre_filter_def)

text \<open>
  Claim C10, amended. For an empty or whitespace-only title the normalized query is empty.
  The exact step comes first: when some stored title is itself empty after normalization,
  the lookup returns the first such row. Otherwise the partial step matches every non-null
  title and the lookup returns the first row with a non-null title. The lookup misses only
  when every title is null. On a hit the resolver takes the local branch: unless the genre
  filter raises, it returns status \<open>success\<close> with the row as searched movie, source
  \<open>dataset\<close>.
\<close>

theorem find_blank_title:
  assumes blank: "\<forall>c\<in>set movie_name. is_space c"
  shows "case find_movie_in_dataset r movie_name of
           None \<Rightarrow> \<forall>row\<in>set (movies_df r). title row = None
         | Some j \<Rightarrow>
             j < length (movies_df r) \<and> title (movies_df r ! j) \<noteq> None \<and>
             (if \<exists>row\<in>set (movies_df r). normalized_title row = Some []
              then normalized_title (movies_df r ! j) = Some []
                   \<and> (\<forall>k<j. normalized_title (movies_df r ! k) \<noteq> Some [])
              else (\<forall>k<j. title (movies_df r ! k) = None)) \<and>
             (case genre_filter (case prefs of None \<Rightarrow> [] | Some gs \<Rightarrow> gs)
                     (recommend_for_existing_movie r j (n * 2)) of
                Inl err \<Rightarrow> get_recommendations r e movie_name n prefs w = (Inl err, w)
              | Inr kept \<Rightarrow>
                  (\<exists>res. get_recommendations r e movie_name n prefs w = (Inr res, w)
                     \<and> status res = ''success''
                     \<and> searched_movie res
                         = Some (From_dataset (dataset_dict r (movies_df r ! j)))
                     \<and> recommendations res = py_slice_to n kept))"
proof -
  have local: "case genre_filter (case prefs of None \<Rightarrow> [] | Some gs \<Rightarrow> gs)
                     (recommend_for_existing_movie r j (n * 2)) of
                Inl err \<Rightarrow> get_recommendations r e movie_name n prefs w = (Inl err, w)
              | Inr kept \<Rightarrow>
                  (\<exists>res. get_recommendations r e movie_name n prefs w = (Inr res, w)
                     \<and> status res = ''success''
                     \<and> searched_movie res
                         = Some (From_dataset (dataset_dict r (movies_df r ! j)))
                     \<and> recommendations res = py_slice_to n kept)"
    if "find_movie_in_dataset r movie_name = Some j" for j
    by (simp add: get_recommendations_of_branch [OF resolve_branch_local [OF that]]
        split: sum.splits)
  have q: "strip (lower movie_name) = []"
    using blank by (rule strip_lower_blank)
  show ?thesis
  proof (cases "mask_any (exact_mask r [])")
    case True
    then have "mask_any (exact_mask r (strip (lower movie_name)))" by (simp add: q)
    then obtain j where j0: "find_movie_in_dataset r movie_name = Some j" "j < length (movies_df r)"
      "normalized_title (movies_df r ! j) = Some (strip (lower movie_name))"
      "\<forall>k<j. normalized_title (movies_df r ! k) \<noteq> Some (strip (lower movie_name))"
      by (rule find_movie_exact)
    note j = j0 [unfolded q]
    from j(3) have t: "title (movies_df r ! j) \<noteq> None"
      by (auto simp: normalized_title_def)
    from j(2,3) have ex: "\<exists>row\<in>set (movies_df r). normalized_title row = Some []"
      using nth_mem by blast
    show ?thesis
      using j t ex local [OF j(1)] by simp
  next
    case False
    then have none: "\<forall>row\<in>set (movies_df r). normalized_title row \<noteq> Some []"
      by (rule no_exact_match)
    show ?thesis
    proof (cases "mask_any (partial_mask r [])")
      case True
      then obtain j where j: "hd (masked_index (partial_mask r [])) = j"
        "j < length (partial_mask r [])" "partial_mask r [] ! j" "\<forall>k<j. \<not> partial_mask r [] ! k"
        by (rule masked_index_first)
      have f: "find_movie_in_dataset r movie_name = Some j"
        using False True j(1) by (simp add: find_movie_in_dataset_def q)
      have jl: "j < length (movies_df r)"
        using j(2) by (simp add: length_partial_mask)
      have t: "title (movies_df r ! j) \<noteq> None"
        using j(3) jl by (simp add: partial_mask_empty_nth)
      have b: "\<forall>k<j. title (movies_df r ! k) = None"
      proof (intro allI impI)
        fix k assume "k < j"
        with j(4) jl have "\<not> partial_mask r [] ! k" "k < length (movies_df r)" by auto
        then show "title (movies_df r ! k) = None"
          by (simp add: partial_mask_empty_nth)
      qed
      show ?thesis
        using f jl t b none local [OF f] by simp
    next
      case nopart: False
      have f: "find_movie_in_dataset r movie_name = None"
        using False nopart by (simp add: find_movie_in_dataset_def q)
      have "\<forall>row\<in>set (movies_df r). title row = None"
      proof
        fix row assume "row \<in> set (movies_df r)"
        then obtain i where i: "i < length (movies_df r)" "movies_df r ! i = row"
          by (auto simp: in_set_conv_nth)
        from nopart i(1) have "\<not> partial_mask r [] ! i"
          by (simp add: mask_any_iff length_partial_mask)
        with i show "title row = None"
          by (simp add: partial_mask_empty_nth)
      qed
      with f show ?thesis by simp
    qed
  qed
qed

theorem find_blank_title_witness:
  "is_space (CHR '' '')
   \<and> find_movie_in_dataset ex_null_first '' '' = Some 1
   \<and> title (movies_df ex_null_first ! 1) \<noteq> None
   \<and> title (movies_df ex_null_first ! 0) = None
   \<and> (\<exists>res. get_recommendations ex_null_first ex_env_down '' '' 5 None ex_world
               = (Inr res, ex_world)
          \<and> status res = ''success''
          \<and> searched_movie res
              = Some (From_dataset (dataset_dict ex_null_first (ex_row ''Alpha'' ''Drama'' 9 1))))"
proof -
  have sp: "is_space (CHR '' '')"
    by (simp add: is_space_def)
  then have blank: "\<forall>c\<in>set '' ''. is_space c"
    by simp
  have f: "find_movie_in_dataset ex_null_first '' '' = Some 1"
    by code_simp
  have rows: "movies_df ex_null_first ! 1 = ex_row ''Alpha'' ''Drama'' 9 1"
    "title (movies_df ex_null_first ! 0) = None"
    by (simp_all add: ex_null_first_def ex_recommender_def)
  have t: "title (ex_row ''Alpha'' ''Drama'' 9 1) \<noteq> None"
    by (simp add: ex_row_def)
  from find_blank_title [OF blank, where r = ex_null_first and prefs = None and n = 5
      and e = ex_env_down and w = ex_world] sp f rows t
  show ?thesis by (auto simp: genre_filter_no_preference)
qed

theorem find_blank_title_counterexample:
  "find_movie_in_dataset ex_recommender [] = Some 3
   \<and> find_movie_in_dataset ex_recommender '' '' = Some 3
   \<and> title (movies_df ex_recommender ! 0) = Some ''Alpha''
   \<and> mask_any (exact_mask ex_recommender [])"
proof -
  have "find_movie_in_dataset ex_recommender [] = Some 3" by code_simp
  moreover have "find_movie_in_dataset ex_recommender '' '' = Some 3" by code_simp
  moreover have "title (movies_df ex_recommender ! 0) = Some ''Alpha''"
    by (simp add: ex_recommender_def ex_row_def)
  moreover have "mask_any (exact_mask ex_recommender [])" by code_simp
  ultimately show ?thesis by simp
qed

section \<open>The resolver's branches\<close>

lemma resolve_branch_external:
  assumes "find_movie_in_dataset r movie_name = None"
    and "search_providers r e movie_name w = (Inr (Some movie_info), w1)"
  shows "resolve_branch r e movie_name n w =
           (Inr (\<lparr> status = ''success'',
                   searched_movie = Some (From_provider movie_info),
                   recommendations = [],
                   message = ''Movie found via '' @ mi_source movie_info @ '' API'' \<rparr>,
                 get_popular_movies r (n * 2)), w1)"
  using assms by (simp add: resolve_branch_def)

lemma resolve_branch_not_found:
  assumes "find_movie_in_dataset r movie_name = None"
    and "search_providers r e movie_name w = (Inr None, w1)"
  shows "resolve_branch r e movie_name n w =
           (Inr (\<lparr> status = ''not_found'',
                   searched_movie = None,
                   recommendations = [],
                   message = ''Movie '' @ [CHR 0x22] @ movie_name @ [CHR 0x22] @ '' not found'' \<rparr>,
                 get_popular_movies r n), w1)"
  using assms by (simp add: resolve_branch_def)

lemma resolve_branch_raises:
  assumes "find_movie_in_dataset r movie_name = None"
    and "search_providers r e movie_name w = (Inl err, w1)"
  shows "resolve_branch r e movie_name n w = (Inl err, w1)"
  using assms by (simp add: resolve_branch_def)



section \<open>Genre filter and truncation\<close>

lemma py_slice_to_nonempty: "1 \<le> n \<Longrightarrow> xs \<noteq> [] \<Longrightarrow> py_slice_to n xs \<noteq> []"
  by (cases xs) (auto simp: py_slice_to_def nat_le_iff take_Cons split: nat.splits)

lemma length_py_slice_to: "0 \<le> n \<Longrightarrow> length (py_slice_to n xs) \<le> nat n"
  by (simp add: py_slice_to_def)

lemma set_py_slice_to: "set (py_slice_to n xs) \<subseteq> set xs"
  by (simp add: py_slice_to_def set_take_subset)

text \<open>
  The fallback of the filter, for candidates that all carry a genre string: a non-empty
  candidate list gives a non-empty recommendation list for every count of at least 1, the
  matching candidates when there are some and the unfiltered candidates when there are
  none.
\<close>

lemma genre_filter_fallback:
  assumes branch: "resolve_branch r e movie_name n w = (Inr (result, recs), w1)"
    and recs: "recs \<noteq> []"
    and genres: "\<forall>rc\<in>set recs. rec_genres rc \<noteq> None"
    and gs: "gs \<noteq> []"
    and n: "1 \<le> n"
  shows "\<exists>res. get_recommendations r e movie_name n (Some gs) w = (Inr res, w1)
           \<and> recommendations res \<noteq> []
           \<and> recommendations res =
               (if list_ex (genre_matches gs) recs
                then py_slice_to n (filter (genre_matches gs) recs)
                else py_slice_to n recs)"
proof -
  let ?kept = "if list_ex (genre_matches gs) recs then filter (genre_matches gs) recs else recs"
  have gf: "genre_filter gs recs = Inr ?kept"
    using gs by (simp add: genre_filter_with_genres [OF genres])
  have eq: "get_recommendations r e movie_name n (Some gs) w
              = (Inr (result\<lparr>recommendations := py_slice_to n ?kept\<rparr>), w1)"
    by (simp add: get_recommendations_of_branch [OF branch] gf)
  have "?kept \<noteq> []"
    using recs by (auto simp: list_ex_iff filter_empty_conv)
  with n have ne: "py_slice_to n ?kept \<noteq> []"
    by (intro py_slice_to_nonempty)
  show ?thesis
    unfolding eq using ne by (simp split: if_splits)
qed

text \<open>
  Claim C2 fails on the code when a candidate has a null genres cell. The filter calls
  \<^verbatim>\<open>rec.get('genres', '').lower()\<close>; the default covers a missing key only, and a NaN
  cell raises \<^verbatim>\<open>AttributeError\<close> out of \<^verbatim>\<open>get_recommendations\<close> instead of a
  recommendation list. Here the candidate list of the query has two elements, the second
  without genres, and the preferred genres are not empty.
\<close>

theorem genre_filter_raises_on_null_genres:
  "map_sum id (map rec_title \<circ> snd)
     (fst (resolve_branch ex_null_genres ex_env_down ''Gamma'' 2 ex_world))
     = Inr [Some ''Beta'', Some ''Alpha'']
   \<and> map_sum id (map rec_genres \<circ> snd)
     (fst (resolve_branch ex_null_genres ex_env_down ''Gamma'' 2 ex_world))
     = Inr [None, Some ''Drama'']
   \<and> fst (get_recommendations ex_null_genres ex_env_down ''Gamma'' 2 (Some [''Drama'']) ex_world)
     = Inl AttributeError"
proof -
  have "map_sum id (map rec_title \<circ> snd)
     (fst (resolve_branch ex_null_genres ex_env_down ''Gamma'' 2 ex_world))
     = Inr [Some ''Beta'', Some ''Alpha'']"
    by code_simp
  moreover have "map_sum id (map rec_genres \<circ> snd)
     (fst (resolve_branch ex_null_genres ex_env_down ''Gamma'' 2 ex_world))
     = Inr [None, Some ''Drama'']"
    by code_simp
  moreover have "fst (get_recommendations ex_null_genres ex_env_down ''Gamma'' 2
                       (Some [''Drama'']) ex_world) = Inl AttributeError"
    by code_simp
  ultimately show ?thesis by simp
qed

section \<open>Score and method of a recommendation\<close>

lemma get_popular_movies_fields:
  "rc \<in> set (get_popular_movies r n) \<Longrightarrow>
     similarity_score rc = 0 \<and> recommendation_method rc = ''popular''"
  by (auto simp: get_popular_movies_def to_recommendation_def Let_def)

lemma recommend_for_existing_movie_fields:
  "rc \<in> set (recommend_for_existing_movie r j n) \<Longrightarrow>
     similarity_score rc = 0 \<and>
     recommendation_method rc =
       (case kmeans_model r of
          None \<Rightarrow> ''popular''
        | Some km \<Rightarrow> (case cluster_top_movies r km j n of
                        Inl err \<Rightarrow> ''popular'' | Inr top_movies \<Rightarrow> ''cluster_based''))"
  by (auto simp: recommend_for_existing_movie_def to_recommendation_def Let_def
      dest: get_popular_movies_fields split: option.splits sum.splits)

lemma get_recommendations_returns:
  assumes "get_recommendations r e movie_name n prefs w = (Inr res, w1)"
  obtains result recs kept where
    "resolve_branch r e movie_name n w = (Inr (result, recs), w1)"
    "genre_filter (case prefs of None \<Rightarrow> [] | Some gs \<Rightarrow> gs) recs = Inr kept"
    "res = result\<lparr>recommendations := py_slice_to n kept\<rparr>"
  using assms
  by (auto simp: get_recommendations_def split: prod.splits sum.splits)

lemma in_final_recommendations:
  "genre_filter gs recs = Inr kept \<Longrightarrow> rc \<in> set (py_slice_to n kept) \<Longrightarrow> rc \<in> set recs"
  using set_py_slice_to set_genre_filter by fast

text \<open>
  Claim C9, amended. Every recommendation the resolver returns carries the similarity score
  0, a constant that depends neither on the rating, nor on the rank, nor on a vector
  distance. Its method tag names the ranking that produced it: \<open>cluster_based\<close> when the
  title matched the catalog and the cluster ranking succeeded, \<open>popular\<close> otherwise.
\<close>

theorem recommendation_score_and_method:
  assumes res: "get_recommendations r e movie_name n prefs w = (Inr res, w1)"
    and rc: "rc \<in> set (recommendations res)"
  shows "similarity_score rc = 0 \<and>
         recommendation_method rc =
           (case find_movie_in_dataset r movie_name of
              None \<Rightarrow> ''popular''
            | Some j \<Rightarrow>
                (case kmeans_model r of
                   None \<Rightarrow> ''popular''
                 | Some km \<Rightarrow> (case cluster_top_movies r km j (n * 2) of
                                 Inl err \<Rightarrow> ''popular'' | Inr top_movies \<Rightarrow> ''cluster_based'')))"
proof -
  from res obtain result recs kept where
    rb: "resolve_branch r e movie_name n w = (Inr (result, recs), w1)"
    and gf: "genre_filter (case prefs of None \<Rightarrow> [] | Some gs \<Rightarrow> gs) recs = Inr kept"
    and r: "res = result\<lparr>recommendations := py_slice_to n kept\<rparr>"
    by (rule get_recommendations_returns)
  from rc r have "rc \<in> set (py_slice_to n kept)" by simp
  with gf have in_recs: "rc \<in> set recs"
    by (rule in_final_recommendations)
  show ?thesis
  proof (cases "find_movie_in_dataset r movie_name")
    case (Some j)
    from rb resolve_branch_local [OF Some, of e n w]
    have "recs = recommend_for_existing_movie r j (n * 2)" by simp
    with in_recs show ?thesis
      using Some by (simp add: recommend_for_existing_movie_fields)
  next
    case None
    obtain found w2 where sp: "search_providers r e movie_name w = (found, w2)"
      by (cases "search_providers r e movie_name w")
    have "\<exists>k. recs = get_popular_movies r k"
    proof (cases found)
      case (Inl err)
      with rb sp None show ?thesis
        by (simp add: resolve_branch_raises)
    next
      case (Inr hit)
      show ?thesis
      proof (cases hit)
        case no: None
        with rb sp None Inr show ?thesis
          by (auto simp: resolve_branch_not_found)
      next
        case (Some movie_info)
        with rb sp None Inr show ?thesis
          by (auto simp: resolve_branch_external)
      qed
    qed
    with in_recs show ?thesis
      using None by (auto dest: get_popular_movies_fields)
  qed
qed

theorem recommendation_score_and_method_witness:
  "\<exists>res w1 rc.
     get_recommendations ex_recommender ex_env_down ''Alpha'' 2 None ex_world = (Inr res, w1)
     \<and> rc \<in> set (recommendations res)
     \<and> similarity_score rc = 0 \<and> recommendation_method rc = ''cluster_based''"
proof -
  have "case get_recommendations ex_recommender ex_env_down ''Alpha'' 2 None ex_world of
          (Inr res, w1) \<Rightarrow> recommendations res \<noteq> []
        | (Inl err, w1) \<Rightarrow> False"
    by code_simp
  then obtain res w1 where
    res: "get_recommendations ex_recommender ex_env_down ''Alpha'' 2 None ex_world = (Inr res, w1)"
    and ne: "recommendations res \<noteq> []"
    by (auto split: prod.splits sum.splits)
  define rc where "rc = hd (recommendations res)"
  have rc: "rc \<in> set (recommendations res)"
    using ne by (simp add: rc_def)
  have m: "(case find_movie_in_dataset ex_recommender ''Alpha'' of
              None \<Rightarrow> ''popular''
            | Some j \<Rightarrow>
                (case kmeans_model ex_recommender of
                   None \<Rightarrow> ''popular''
                 | Some km \<Rightarrow> (case cluster_top_movies ex_recommender km j (2 * 2) of
                                 Inl err \<Rightarrow> ''popular'' | Inr top_movies \<Rightarrow> ''cluster_based'')))
           = ''cluster_based''"
    by code_simp
  from recommendation_score_and_method [OF res rc] m res rc show ?thesis
    by auto
qed

theorem recommendation_score_counterexample:
  "map_sum id (map similarity_score \<circ> recommendations)
     (fst (get_recommendations ex_recommender ex_env_down ''Alpha'' 2 None ex_world)) = Inr [0, 0]
   \<and> map_sum id (map rec_vote_average \<circ> recommendations)
     (fst (get_recommendations ex_recommender ex_env_down ''Alpha'' 2 None ex_world))
       = Inr [Some 8, Some 7]"
proof -
  have "map_sum id (map similarity_score \<circ> recommendations)
     (fst (get_recommendations ex_recommender ex_env_down ''Alpha'' 2 None ex_world)) = Inr [0, 0]"
    by code_simp
  moreover have "map_sum id (map rec_vote_average \<circ> recommendations)
     (fst (get_recommendations ex_recommender ex_env_down ''Alpha'' 2 None ex_world))
       = Inr [Some 8, Some 7]"
    by code_simp
  ultimately show ?thesis by simp
qed

section \<open>The requested count\<close>

lemma validate_count_range: "1 \<le> validate_count v \<and> validate_count v \<le> 50"
  by (simp add: validate_count_def split: py_value.splits)

lemma length_recommendations:
  assumes "get_recommendations r e movie_name n prefs w = (Inr res, w1)" and "0 \<le> n"
  shows "length (recommendations res) \<le> nat n"
proof -
  from assms(1) obtain result recs kept where
    "res = result\<lparr>recommendations := py_slice_to n kept\<rparr>"
    by (rule get_recommendations_returns)
  then show ?thesis
    using assms(2) by (simp add: length_py_slice_to)
qed

lemma api_search_count:
  "api_search mr e (Some (PyDict ((''n_recommendations'', v) # d))) w =
   api_search mr e (Some (PyDict ((''n_recommendations'', PyInt (validate_count v)) # d))) w"
proof -
  have "validate_count (PyInt (validate_count v)) = validate_count v"
    using validate_count_range [of v] by (simp add: validate_count_def)
  then show ?thesis
    by (simp add: api_search_def dict_get_def Let_def
        cong: if_cong py_value.case_cong option.case_cong)
qed

text \<open>
  Claim C5. For a count \<open>N\<close> of 1 to 50 the recommendation list has at most \<open>N\<close>
  elements, in the result of \<^verbatim>\<open>get_recommendations\<close> and in the reply of
  \<^verbatim>\<open>api_search\<close>. For a count outside 1 to 50 the request is answered as the same
  request with count 10 is: \<^verbatim>\<open>api_search\<close> replaces the count before it calls the
  recommender.
\<close>

theorem count_bound_and_clamp:
  "(1 \<le> N \<and> N \<le> 50 \<longrightarrow>
      (\<forall>res w1. get_recommendations r e movie_name N prefs w = (Inr res, w1)
           \<longrightarrow> length (recommendations res) \<le> nat N) \<and>
      (\<forall>resp w1. api_search mr e (Some (PyDict ((''n_recommendations'', PyInt N) # d))) w
                   = (Reply_200 resp, w1)
           \<longrightarrow> length (resp_recommendations resp) \<le> nat N)) \<and>
   (N < 1 \<or> 50 < N \<longrightarrow>
      api_search mr e (Some (PyDict ((''n_recommendations'', PyInt N) # d))) w
        = api_search mr e (Some (PyDict ((''n_recommendations'', PyInt 10) # d))) w)"
proof (intro conjI impI allI)
  fix res w1
  assume "1 \<le> N \<and> N \<le> 50" "get_recommendations r e movie_name N prefs w = (Inr res, w1)"
  then show "length (recommendations res) \<le> nat N"
    by (intro length_recommendations) auto
next
  fix resp w1
  assume N: "1 \<le> N \<and> N \<le> 50"
    and reply: "api_search mr e (Some (PyDict ((''n_recommendations'', PyInt N) # d))) w
                  = (Reply_200 resp, w1)"
  from N have vc: "validate_count (PyInt N) = N"
    by (simp add: validate_count_def)
  from reply obtain r' name res where
    "get_recommendations r' e name N None w = (Inr res, w1)"
    "resp_recommendations resp = recommendations res"
    by (auto simp: api_search_def dict_get_def vc Let_def
        split: if_splits option.splits py_value.splits prod.splits sum.splits)
  then show "length (resp_recommendations resp) \<le> nat N"
    using N length_recommendations [of r' e name N None w res w1] by simp
next
  assume "N < 1 \<or> 50 < N"
  then have "validate_count (PyInt N) = 10"
    by (auto simp: validate_count_def)
  with api_search_count [of mr e "PyInt N" d w]
  show "api_search mr e (Some (PyDict ((''n_recommendations'', PyInt N) # d))) w
        = api_search mr e (Some (PyDict ((''n_recommendations'', PyInt 10) # d))) w"
    by simp
qed

theorem count_bound_and_clamp_witness:
  "(1::int) \<le> 3 \<and> (3::int) \<le> 50
   \<and> (\<exists>res w1. get_recommendations ex_recommender ex_env_down ''Alpha'' 3 None ex_world
                    = (Inr res, w1)
              \<and> length (recommendations res) \<le> 3)
   \<and> (50::int) < 100
   \<and> api_search (Some ex_recommender) ex_env_down
         (Some (PyDict [(''n_recommendations'', PyInt 100), (''movie_name'', PyStr ''Alpha'')]))
         ex_world
       = api_search (Some ex_recommender) ex_env_down
         (Some (PyDict [(''n_recommendations'', PyInt 10), (''movie_name'', PyStr ''Alpha'')]))
         ex_world"
proof -
  have f: "find_movie_in_dataset ex_recommender ''Alpha'' = Some 0"
    by code_simp
  obtain res w1 where
    res: "get_recommendations ex_recommender ex_env_down ''Alpha'' 3 None ex_world = (Inr res, w1)"
    using get_recommendations_of_branch [OF resolve_branch_local [OF f], where prefs = None]
    by (simp add: genre_filter_no_preference)
  from count_bound_and_clamp [of 3 ex_recommender ex_env_down "''Alpha''" None ex_world] res
  have "length (recommendations res) \<le> 3"
    by simp
  with res have 1: "\<exists>res w1. get_recommendations ex_recommender ex_env_down ''Alpha'' 3 None ex_world
                    = (Inr res, w1) \<and> length (recommendations res) \<le> 3"
    by blast
  from count_bound_and_clamp [of 100 _ _ _ _ _ "Some ex_recommender"
      "[(''movie_name'', PyStr ''Alpha'')]"]
  have 2: "api_search (Some ex_recommender) ex_env_down
         (Some (PyDict [(''n_recommendations'', PyInt 100), (''movie_name'', PyStr ''Alpha'')]))
         ex_world
       = api_search (Some ex_recommender) ex_env_down
         (Some (PyDict [(''n_recommendations'', PyInt 10), (''movie_name'', PyStr ''Alpha'')]))
         ex_world"
    by simp
  from 1 2 show ?thesis by simp
qed

section \<open>Properties of the ranking\<close>

lemma sorted_wrt_insort_key_desc:
  assumes "sorted_wrt (ranks_before col tie) ys"
    and "\<forall>y\<in>set ys. tie x y"
    and "col x \<noteq> None" "\<forall>y\<in>set ys. col y \<noteq> None"
  shows "sorted_wrt (ranks_before col tie) (insort_key (\<lambda>x. - the (col x)) x ys)"
  using assms
proof (induction ys)
  case Nil
  then show ?case by simp
next
  case (Cons y ys)
  from Cons.prems obtain vx vy where v: "col x = Some vx" "col y = Some vy"
    by auto
  show ?case
  proof (cases "vy \<le> vx")
    case True
    have "ranks_before col tie x z" if "z \<in> set (y # ys)" for z
    proof -
      from that Cons.prems(4) obtain vz where vz: "col z = Some vz" by auto
      have "vz \<le> vy"
      proof (cases "z = y")
        case True
        with v vz show ?thesis by simp
      next
        case False
        with that Cons.prems(1) have "ranks_before col tie y z" by auto
        with v vz show ?thesis by (auto simp: ranks_before_def)
      qed
      moreover from that Cons.prems(2) have "tie x z" by blast
      ultimately show ?thesis
        using True v vz by (auto simp: ranks_before_def)
    qed
    with True v Cons.prems(1) show ?thesis by simp
  next
    case False
    then have yx: "ranks_before col tie y x"
      using v by (simp add: ranks_before_def)
    from Cons.prems have "sorted_wrt (ranks_before col tie) (insort_key (\<lambda>x. - the (col x)) x ys)"
      by (intro Cons.IH) auto
    with False v yx Cons.prems(1) show ?thesis
      by (auto simp: set_insort_key)
  qed
qed

lemma sorted_wrt_sort_key_desc:
  assumes "sorted_wrt tie xs" and "\<forall>x\<in>set xs. col x \<noteq> None"
  shows "sorted_wrt (ranks_before col tie) (sort_key (\<lambda>x. - the (col x)) xs)"
  using assms
proof (induction xs)
  case Nil
  then show ?case by simp
next
  case (Cons x xs)
  then show ?case
    by (auto intro!: sorted_wrt_insort_key_desc)
qed

lemma nlargest_ranked: "nlargest n col df = (if n \<le> 0 then [] else take (nat n) (ranked col df))"
  by (simp add: nlargest_def ranked_def)

lemma set_ranked: "set (ranked col df) = set df"
  by (auto simp: ranked_def)

lemma length_ranked: "length (ranked col df) = length df"
proof -
  have "length (filter (\<lambda>x. col x \<noteq> None) df) + length (filter (\<lambda>x. col x = None) df)
          = length df"
    by (induction df) auto
  then show ?thesis
    by (simp add: ranked_def)
qed

lemma sorted_wrt_ranked:
  assumes "sorted_wrt tie df"
  shows "sorted_wrt (ranks_before col tie) (ranked col df)"
proof -
  have 1: "sorted_wrt (ranks_before col tie)
             (sort_key (\<lambda>x. - the (col x)) (filter (\<lambda>x. col x \<noteq> None) df))"
    using assms by (intro sorted_wrt_sort_key_desc sorted_wrt_filter) auto
  have "sorted_wrt tie (filter (\<lambda>x. col x = None) df)"
    using assms by (rule sorted_wrt_filter)
  then have 2: "sorted_wrt (ranks_before col tie) (filter (\<lambda>x. col x = None) df)"
    by (rule sorted_wrt_mono_rel [rotated]) (auto simp: ranks_before_def)
  have 3: "ranks_before col tie a b"
    if "a \<in> set (filter (\<lambda>x. col x \<noteq> None) df)" "b \<in> set (filter (\<lambda>x. col x = None) df)" for a b
    using that by (auto simp: ranks_before_def)
  from 1 2 3 show ?thesis
    by (simp add: ranked_def sorted_wrt_append)
qed

lemma set_nlargest: "set (nlargest n col df) \<subseteq> set df"
  using set_take_subset [of "nat n" "ranked col df"] by (auto simp: nlargest_ranked set_ranked)

lemma length_nlargest: "length (nlargest n col df) = min (nat n) (length df)"
  by (auto simp: nlargest_ranked length_ranked)

lemma sorted_wrt_nlargest:
  "sorted_wrt tie df \<Longrightarrow> sorted_wrt (ranks_before col tie) (nlargest n col df)"
  by (simp add: nlargest_ranked sorted_wrt_take sorted_wrt_ranked)

lemma nlargest_selects:
  assumes "sorted_wrt tie df" and "0 < n"
    and a: "a \<in> set (nlargest n col df)" and b: "b \<in> set df" "b \<notin> set (nlargest n col df)"
  shows "ranks_before col tie a b"
proof -
  let ?s = "ranked col df"
  have s: "sorted_wrt (ranks_before col tie) (take (nat n) ?s @ drop (nat n) ?s)"
    using assms(1) by (simp add: sorted_wrt_ranked)
  from a assms(2) have a': "a \<in> set (take (nat n) ?s)"
    by (simp add: nlargest_ranked)
  from b assms(2) have "b \<in> set ?s" "b \<notin> set (take (nat n) ?s)"
    by (simp_all add: nlargest_ranked set_ranked)
  then have "b \<in> set (drop (nat n) ?s)"
    by (metis Un_iff append_take_drop_id set_append)
  with s a' show ?thesis
    unfolding sorted_wrt_append by blast
qed

lemma sorted_wrt_df_frame: "sorted_wrt index_order (df_frame r)"
proof -
  have "sorted_wrt (<) (map fst (df_frame r))"
    by (simp add: df_frame_def)
  then show ?thesis
    by (simp add: sorted_wrt_map index_order_def [abs_def])
qed

lemma nlargest_selects_all:
  assumes "sorted_wrt tie df"
  shows "\<forall>a\<in>set (nlargest n col df). \<forall>b\<in>set df.
           b \<notin> set (nlargest n col df) \<longrightarrow> ranks_before col tie a b"
proof (cases "0 < n")
  case True
  with assms show ?thesis
    by (blast intro: nlargest_selects)
next
  case False
  then show ?thesis
    by (simp add: nlargest_def)
qed

lemma sorted_wrt_highest_rated: "sorted_wrt by_rating (highest_rated r k)"
  unfolding by_rating_def highest_rated_def
  by (intro sorted_wrt_nlargest sorted_wrt_df_frame)

lemma distinct_fst_df_frame: "distinct (map fst (df_frame r))"
  by (simp add: df_frame_def)

lemma distinct_fst_ranked:
  assumes "distinct (map fst df)"
  shows "distinct (map fst (ranked col df))"
proof -
  from assms have d: "distinct df" and inj: "inj_on fst (set df)"
    by (simp_all add: distinct_map)
  have "distinct (ranked col df)"
    using d by (auto simp: ranked_def)
  with inj show ?thesis
    by (simp add: distinct_map set_ranked)
qed

lemma distinct_fst_nlargest:
  "distinct (map fst df) \<Longrightarrow> distinct (map fst (nlargest n col df))"
  by (simp add: nlargest_ranked distinct_fst_ranked take_map [symmetric])

lemma distinct_fst_py_slice_to:
  "distinct (map fst df) \<Longrightarrow> distinct (map fst (py_slice_to n df))"
  by (simp add: py_slice_to_def take_map [symmetric])

lemma length_highest_rated:
  "length (highest_rated r k) = min (nat k) (length (movies_df r))"
  by (simp add: highest_rated_def length_nlargest df_frame_def)

lemma distinct_fst_highest_rated: "distinct (map fst (highest_rated r k))"
  by (simp add: highest_rated_def distinct_fst_nlargest distinct_fst_df_frame)

lemma set_highest_rated: "set (highest_rated r k) \<subseteq> set (df_frame r)"
  by (simp add: highest_rated_def set_nlargest)

text \<open>
  Claim C3, amended. The global popularity ranking is in two stages when both columns are
  available. The first stage selects the \<open>2n\<close> highest-rated rows of the catalog (all
  rows when there are fewer), rating descending, ties in catalog order: every row left out
  ranks after every row selected. The second stage returns the \<open>n\<close> of these with the
  highest vote count (all of them when there are fewer), ordered by vote count
  descending, ties by rating descending and then catalog order. So the result is ordered
  by vote count, not by rating. With the rating column only, the result is the \<open>n\<close>
  highest-rated rows, rating descending, ties in catalog order. With neither column it is
  the first \<open>n\<close> rows in catalog order. The rows returned are distinct rows of the
  catalog.
\<close>

theorem popular_movies_ranking:
  "(has_vote_average r \<and> has_vote_count r \<longrightarrow>
      set (highest_rated r (n * 2)) \<subseteq> set (df_frame r)
      \<and> length (highest_rated r (n * 2)) = min (nat (n * 2)) (length (movies_df r))
      \<and> distinct (map fst (highest_rated r (n * 2)))
      \<and> sorted_wrt by_rating (highest_rated r (n * 2))
      \<and> (\<forall>a\<in>set (highest_rated r (n * 2)). \<forall>b\<in>set (df_frame r).
            b \<notin> set (highest_rated r (n * 2)) \<longrightarrow> by_rating a b)
      \<and> set (popular_movies r n) \<subseteq> set (highest_rated r (n * 2))
      \<and> length (popular_movies r n) = min (nat n) (length (movies_df r))
      \<and> distinct (map fst (popular_movies r n))
      \<and> sorted_wrt by_votes (popular_movies r n)
      \<and> (\<forall>a\<in>set (popular_movies r n). \<forall>b\<in>set (highest_rated r (n * 2)).
            b \<notin> set (popular_movies r n) \<longrightarrow> by_votes a b))
   \<and> (has_vote_average r \<and> \<not> has_vote_count r \<longrightarrow>
        set (popular_movies r n) \<subseteq> set (df_frame r)
        \<and> length (popular_movies r n) = min (nat n) (length (movies_df r))
        \<and> distinct (map fst (popular_movies r n))
        \<and> sorted_wrt by_rating (popular_movies r n)
        \<and> (\<forall>a\<in>set (popular_movies r n). \<forall>b\<in>set (df_frame r).
              b \<notin> set (popular_movies r n) \<longrightarrow> by_rating a b))
   \<and> (\<not> has_vote_average r \<longrightarrow> popular_movies r n = py_slice_to n (df_frame r))
   \<and> get_popular_movies r n = map (to_recommendation r ''popular'') (popular_movies r n)"
proof -
  let ?top = "highest_rated r (n * 2)"
  have top_sel: "\<forall>a\<in>set (highest_rated r k). \<forall>b\<in>set (df_frame r).
                   b \<notin> set (highest_rated r k) \<longrightarrow> by_rating a b" for k
    unfolding by_rating_def highest_rated_def
    by (intro nlargest_selects_all sorted_wrt_df_frame)
  have A: "has_vote_average r \<and> has_vote_count r \<longrightarrow>
      set ?top \<subseteq> set (df_frame r)
      \<and> length ?top = min (nat (n * 2)) (length (movies_df r))
      \<and> distinct (map fst ?top)
      \<and> sorted_wrt by_rating ?top
      \<and> (\<forall>a\<in>set ?top. \<forall>b\<in>set (df_frame r). b \<notin> set ?top \<longrightarrow> by_rating a b)
      \<and> set (popular_movies r n) \<subseteq> set ?top
      \<and> length (popular_movies r n) = min (nat n) (length (movies_df r))
      \<and> distinct (map fst (popular_movies r n))
      \<and> sorted_wrt by_votes (popular_movies r n)
      \<and> (\<forall>a\<in>set (popular_movies r n). \<forall>b\<in>set ?top.
            b \<notin> set (popular_movies r n) \<longrightarrow> by_votes a b)"
  proof
    assume h: "has_vote_average r \<and> has_vote_count r"
    then have both: "popular_movies r n = nlargest n col_vote_count ?top"
      by (simp add: popular_movies_def highest_rated_def)
    have 1: "set (popular_movies r n) \<subseteq> set ?top"
      unfolding both by (rule set_nlargest)
    have 2: "length (popular_movies r n) = min (nat n) (length (movies_df r))"
      unfolding both by (auto simp: length_nlargest length_highest_rated)
    have 3: "distinct (map fst (popular_movies r n))"
      unfolding both by (intro distinct_fst_nlargest distinct_fst_highest_rated)
    have 4: "sorted_wrt by_votes (popular_movies r n)"
      unfolding both by_votes_def
      by (intro sorted_wrt_nlargest sorted_wrt_highest_rated)
    have 5: "\<forall>a\<in>set (popular_movies r n). \<forall>b\<in>set ?top.
            b \<notin> set (popular_movies r n) \<longrightarrow> by_votes a b"
      unfolding both by_votes_def
      by (intro nlargest_selects_all sorted_wrt_highest_rated)
    show "set ?top \<subseteq> set (df_frame r)
      \<and> length ?top = min (nat (n * 2)) (length (movies_df r))
      \<and> distinct (map fst ?top)
      \<and> sorted_wrt by_rating ?top
      \<and> (\<forall>a\<in>set ?top. \<forall>b\<in>set (df_frame r). b \<notin> set ?top \<longrightarrow> by_rating a b)
      \<and> set (popular_movies r n) \<subseteq> set ?top
      \<and> length (popular_movies r n) = min (nat n) (length (movies_df r))
      \<and> distinct (map fst (popular_movies r n))
      \<and> sorted_wrt by_votes (popular_movies r n)
      \<and> (\<forall>a\<in>set (popular_movies r n). \<forall>b\<in>set ?top.
            b \<notin> set (popular_movies r n) \<longrightarrow> by_votes a b)"
      using set_highest_rated [of r "n * 2"] length_highest_rated [of r "n * 2"]
        distinct_fst_highest_rated [of r "n * 2"] sorted_wrt_highest_rated [of r "n * 2"]
        top_sel [of "n * 2"] 1 2 3 4 5
      by (intro conjI)
  qed
  have B: "has_vote_average r \<and> \<not> has_vote_count r \<longrightarrow>
        set (popular_movies r n) \<subseteq> set (df_frame r)
        \<and> length (popular_movies r n) = min (nat n) (length (movies_df r))
        \<and> distinct (map fst (popular_movies r n))
        \<and> sorted_wrt by_rating (popular_movies r n)
        \<and> (\<forall>a\<in>set (popular_movies r n). \<forall>b\<in>set (df_frame r).
              b \<notin> set (popular_movies r n) \<longrightarrow> by_rating a b)"
  proof
    assume h: "has_vote_average r \<and> \<not> has_vote_count r"
    then have one: "popular_movies r n = highest_rated r n"
      by (simp add: popular_movies_def highest_rated_def)
    show "set (popular_movies r n) \<subseteq> set (df_frame r)
        \<and> length (popular_movies r n) = min (nat n) (length (movies_df r))
        \<and> distinct (map fst (popular_movies r n))
        \<and> sorted_wrt by_rating (popular_movies r n)
        \<and> (\<forall>a\<in>set (popular_movies r n). \<forall>b\<in>set (df_frame r).
              b \<notin> set (popular_movies r n) \<longrightarrow> by_rating a b)"
      unfolding one
      using set_highest_rated [of r n] length_highest_rated [of r n]
        distinct_fst_highest_rated [of r n] sorted_wrt_highest_rated [of r n] top_sel [of n]
      by (intro conjI)
  qed
  have C: "\<not> has_vote_average r \<longrightarrow> popular_movies r n = py_slice_to n (df_frame r)"
    by (simp add: popular_movies_def head_def)
  have F: "get_popular_movies r n = map (to_recommendation r ''popular'') (popular_movies r n)"
    by (simp add: get_popular_movies_def)
  show ?thesis
    by (rule conjI [OF A conjI [OF B conjI [OF C F]]])
qed


theorem popular_movies_ranking_witness:
  "has_vote_average ex_recommender \<and> has_vote_count ex_recommender
   \<and> length (popular_movies ex_recommender 3) = 3
   \<and> sorted_wrt by_votes (popular_movies ex_recommender 3)
   \<and> set (popular_movies ex_recommender 3) \<subseteq> set (highest_rated ex_recommender (3 * 2))
   \<and> map fst (popular_movies ex_recommender 3) = [1, 3, 2]
   \<and> map col_vote_count (popular_movies ex_recommender 3) = [Some 100, Some 50, Some 5]"
proof -
  have h: "has_vote_average ex_recommender \<and> has_vote_count ex_recommender"
    by (simp add: ex_recommender_def)
  have 1: "map fst (popular_movies ex_recommender 3) = [1, 3, 2]"
    by code_simp
  have 2: "map col_vote_count (popular_movies ex_recommender 3) = [Some 100, Some 50, Some 5]"
    by code_simp
  have 3: "length (movies_df ex_recommender) = 4"
    by (simp add: ex_recommender_def)
  from popular_movies_ranking [of ex_recommender 3] h 1 2 3 show ?thesis
    by simp
qed

theorem popular_movies_ranking_counterexample:
  "map fst (popular_movies ex_recommender 3) = [1, 3, 2]
   \<and> map rec_vote_average (get_popular_movies ex_recommender 3) = [Some 8, Some 6, Some 7]
   \<and> map rec_vote_average (get_popular_movies ex_recommender 1) = [Some 8]
   \<and> vote_average (movies_df ex_recommender ! 0) = Some 9"
proof -
  have "map fst (popular_movies ex_recommender 3) = [1, 3, 2]"
    by code_simp
  moreover have "map rec_vote_average (get_popular_movies ex_recommender 3)
                   = [Some 8, Some 6, Some 7]"
    by code_simp
  moreover have "map rec_vote_average (get_popular_movies ex_recommender 1) = [Some 8]"
    by code_simp
  moreover have "vote_average (movies_df ex_recommender ! 0) = Some 9"
    by (simp add: ex_recommender_def ex_row_def)
  ultimately show ?thesis by simp
qed

section \<open>The cluster ranker\<close>

lemma in_df_frame: "x \<in> set (df_frame r) \<Longrightarrow> fst x < length (movies_df r) \<and> snd x = movies_df r ! fst x"
  by (cases x) (auto simp: df_frame_def in_set_enumerate_eq)

lemma cluster_top_movies_runs:
  assumes "movie_idx < length (tfidf_matrix r)" "length (labels km) = length (movies_df r)"
    "movie_idx < length (movies_df r)"
  shows "cluster_top_movies r km movie_idx n =
           Inr (if has_vote_average r
                then nlargest n col_vote_average (cluster_members r km movie_idx)
                else py_slice_to n (cluster_members r km movie_idx))"
  using assms by (simp add: cluster_top_movies_def cluster_members_def head_def Let_def)

lemma cluster_top_movies_fails:
  assumes "\<not> (movie_idx < length (tfidf_matrix r) \<and> length (labels km) = length (movies_df r)
              \<and> movie_idx < length (movies_df r))"
  shows "\<exists>err. cluster_top_movies r km movie_idx n = Inl err"
  using assms by (auto simp: cluster_top_movies_def Let_def)

lemma in_cluster_members:
  "x \<in> set (cluster_members r km movie_idx) \<Longrightarrow>
     fst x < length (movies_df r) \<and> snd x = movies_df r ! fst x
     \<and> labels km ! fst x = predict km (tfidf_matrix r ! movie_idx) \<and> fst x \<noteq> movie_idx"
  using in_df_frame [of x r] by (simp add: cluster_members_def)

lemma sorted_wrt_cluster_members: "sorted_wrt index_order (cluster_members r km movie_idx)"
  unfolding cluster_members_def by (intro sorted_wrt_filter sorted_wrt_df_frame)

lemma distinct_fst_cluster_members: "distinct (map fst (cluster_members r km movie_idx))"
  unfolding cluster_members_def by (intro distinct_map_filter distinct_fst_df_frame)

text \<open>
  Claim C6, amended. The cluster path runs when the cluster model is loaded, the queried
  row has an embedding and the stored assignment has one label for each catalog row. The
  label of the queried row is then computed when the query is made:
  \<^verbatim>\<open>kmeans_model.predict\<close> is applied to the row's embedding. The candidates are catalog
  rows whose stored label (\<^verbatim>\<open>labels_\<close>) equals that predicted label, never the queried
  row itself: the \<open>n\<close> highest-rated of them, or the first \<open>n\<close> when there is no rating
  column. Their stored label equals the stored label of the queried row when the
  prediction for the queried row agrees with its stored label. When the cluster path does
  not run, the ranker returns the global popularity ranking, which is not restricted to a
  cluster and can contain the queried row.
\<close>

theorem cluster_candidates:
  "case kmeans_model r of
     None \<Rightarrow> recommend_for_existing_movie r movie_idx n = get_popular_movies r n
   | Some km \<Rightarrow>
       if movie_idx < length (tfidf_matrix r) \<and> length (labels km) = length (movies_df r)
          \<and> movie_idx < length (movies_df r)
       then \<exists>top_movies.
              cluster_top_movies r km movie_idx n = Inr top_movies
              \<and> recommend_for_existing_movie r movie_idx n
                  = map (to_recommendation r ''cluster_based'') top_movies
              \<and> (\<forall>x\<in>set top_movies.
                    fst x < length (movies_df r) \<and> snd x = movies_df r ! fst x
                    \<and> labels km ! fst x = predict km (tfidf_matrix r ! movie_idx)
                    \<and> fst x \<noteq> movie_idx)
              \<and> (predict km (tfidf_matrix r ! movie_idx) = labels km ! movie_idx \<longrightarrow>
                    (\<forall>x\<in>set top_movies. labels km ! fst x = labels km ! movie_idx))
              \<and> set top_movies \<subseteq> set (cluster_members r km movie_idx)
              \<and> distinct (map fst top_movies)
              \<and> (0 \<le> n \<longrightarrow>
                    length top_movies = min (nat n) (length (cluster_members r km movie_idx)))
              \<and> (has_vote_average r \<longrightarrow>
                    sorted_wrt by_rating top_movies
                    \<and> (\<forall>a\<in>set top_movies. \<forall>b\<in>set (cluster_members r km movie_idx).
                          b \<notin> set top_movies \<longrightarrow> by_rating a b))
              \<and> (\<not> has_vote_average r \<longrightarrow>
                    top_movies = py_slice_to n (cluster_members r km movie_idx))
       else recommend_for_existing_movie r movie_idx n = get_popular_movies r n"
proof (cases "kmeans_model r")
  case None
  then show ?thesis
    by (simp add: recommend_for_existing_movie_def)
next
  case (Some km)
  let ?ok = "movie_idx < length (tfidf_matrix r) \<and> length (labels km) = length (movies_df r)
          \<and> movie_idx < length (movies_df r)"
  let ?members = "cluster_members r km movie_idx"
  show ?thesis
  proof (cases ?ok)
    case False
    from cluster_top_movies_fails [OF False, of n] obtain err where
      "cluster_top_movies r km movie_idx n = Inl err" ..
    with Some False show ?thesis
      by (simp add: recommend_for_existing_movie_def)
  next
    case True
    define top_movies where "top_movies =
      (if has_vote_average r then nlargest n col_vote_average ?members
       else py_slice_to n ?members)"
    have run: "cluster_top_movies r km movie_idx n = Inr top_movies"
      using True by (simp add: cluster_top_movies_runs top_movies_def)
    have 1: "recommend_for_existing_movie r movie_idx n
               = map (to_recommendation r ''cluster_based'') top_movies"
      using Some run by (simp add: recommend_for_existing_movie_def)
    have sub: "set top_movies \<subseteq> set ?members"
      by (simp add: top_movies_def set_nlargest set_py_slice_to)
    have 2: "\<forall>x\<in>set top_movies.
                    fst x < length (movies_df r) \<and> snd x = movies_df r ! fst x
                    \<and> labels km ! fst x = predict km (tfidf_matrix r ! movie_idx)
                    \<and> fst x \<noteq> movie_idx"
      using sub in_cluster_members by blast
    have 3: "predict km (tfidf_matrix r ! movie_idx) = labels km ! movie_idx \<longrightarrow>
                    (\<forall>x\<in>set top_movies. labels km ! fst x = labels km ! movie_idx)"
      using 2 by simp
    have 4: "distinct (map fst top_movies)"
      by (simp add: top_movies_def distinct_fst_nlargest distinct_fst_py_slice_to
          distinct_fst_cluster_members)
    have 5: "0 \<le> n \<longrightarrow> length top_movies = min (nat n) (length ?members)"
      unfolding top_movies_def by (auto simp: length_nlargest py_slice_to_def)
    have 6: "has_vote_average r \<longrightarrow>
                    sorted_wrt by_rating top_movies
                    \<and> (\<forall>a\<in>set top_movies. \<forall>b\<in>set ?members.
                          b \<notin> set top_movies \<longrightarrow> by_rating a b)"
    proof
      assume "has_vote_average r"
      then have t: "top_movies = nlargest n col_vote_average ?members"
        by (simp add: top_movies_def)
      show "sorted_wrt by_rating top_movies
                    \<and> (\<forall>a\<in>set top_movies. \<forall>b\<in>set ?members.
                          b \<notin> set top_movies \<longrightarrow> by_rating a b)"
        unfolding t by_rating_def
        by (intro conjI sorted_wrt_nlargest nlargest_selects_all sorted_wrt_cluster_members)
    qed
    have 7: "\<not> has_vote_average r \<longrightarrow> top_movies = py_slice_to n ?members"
      by (simp add: top_movies_def)
    have "\<exists>top_movies.
              cluster_top_movies r km movie_idx n = Inr top_movies
              \<and> recommend_for_existing_movie r movie_idx n
                  = map (to_recommendation r ''cluster_based'') top_movies
              \<and> (\<forall>x\<in>set top_movies.
                    fst x < length (movies_df r) \<and> snd x = movies_df r ! fst x
                    \<and> labels km ! fst x = predict km (tfidf_matrix r ! movie_idx)
                    \<and> fst x \<noteq> movie_idx)
              \<and> (predict km (tfidf_matrix r ! movie_idx) = labels km ! movie_idx \<longrightarrow>
                    (\<forall>x\<in>set top_movies. labels km ! fst x = labels km ! movie_idx))
              \<and> set top_movies \<subseteq> set ?members
              \<and> distinct (map fst top_movies)
              \<and> (0 \<le> n \<longrightarrow> length top_movies = min (nat n) (length ?members))
              \<and> (has_vote_average r \<longrightarrow>
                    sorted_wrt by_rating top_movies
                    \<and> (\<forall>a\<in>set top_movies. \<forall>b\<in>set ?members.
                          b \<notin> set top_movies \<longrightarrow> by_rating a b))
              \<and> (\<not> has_vote_average r \<longrightarrow> top_movies = py_slice_to n ?members)"
      using run 1 2 3 sub 4 5 6 7 by (intro exI [of _ top_movies] conjI)
    with Some True show ?thesis
      by simp
  qed
qed


theorem cluster_candidates_witness:
  "kmeans_model ex_recommender = Some ex_kmeans
   \<and> 1 < length (tfidf_matrix ex_recommender)
   \<and> length (labels ex_kmeans) = length (movies_df ex_recommender)
   \<and> 1 < length (movies_df ex_recommender)
   \<and> predict ex_kmeans (tfidf_matrix ex_recommender ! 1) = labels ex_kmeans ! 1
   \<and> (\<exists>top_movies.
         cluster_top_movies ex_recommender ex_kmeans 1 4 = Inr top_movies
         \<and> map fst top_movies = [2]
         \<and> recommend_for_existing_movie ex_recommender 1 4
             = map (to_recommendation ex_recommender ''cluster_based'') top_movies
         \<and> list_all (\<lambda>x. labels ex_kmeans ! fst x = labels ex_kmeans ! 1) top_movies
         \<and> list_all (\<lambda>x. fst x \<noteq> 1) top_movies)"
proof -
  have km: "kmeans_model ex_recommender = Some ex_kmeans"
    by (simp add: ex_recommender_def)
  have ok: "1 < length (tfidf_matrix ex_recommender)
              \<and> length (labels ex_kmeans) = length (movies_df ex_recommender)
              \<and> 1 < length (movies_df ex_recommender)"
    by (simp add: ex_recommender_def ex_kmeans_def)
  have p: "predict ex_kmeans (tfidf_matrix ex_recommender ! 1) = labels ex_kmeans ! 1"
    by (simp add: ex_kmeans_def)
  have ev: "map_sum id (map fst) (cluster_top_movies ex_recommender ex_kmeans 1 4) = Inr [2]"
    by code_simp
  from cluster_candidates [of ex_recommender 1 4] km ok p
  obtain top_movies where
    t: "cluster_top_movies ex_recommender ex_kmeans 1 4 = Inr top_movies"
      "recommend_for_existing_movie ex_recommender 1 4
         = map (to_recommendation ex_recommender ''cluster_based'') top_movies"
      "\<forall>x\<in>set top_movies. labels ex_kmeans ! fst x = labels ex_kmeans ! 1"
      "\<forall>x\<in>set top_movies. fst x \<noteq> 1"
    by auto
  from t(1) ev have "map fst top_movies = [2]" by simp
  with t km ok p show ?thesis
    by (auto simp: list_all_iff)
qed

theorem cluster_candidates_counterexample:
  "map_sum id (map fst) (cluster_top_movies ex_recommender ex_kmeans 0 4) = Inr [1, 2]
   \<and> labels ex_kmeans ! 0 = 0 \<and> labels ex_kmeans ! 1 = 1 \<and> labels ex_kmeans ! 2 = 1
   \<and> predict ex_kmeans (tfidf_matrix ex_recommender ! 0) = 1
   \<and> map rec_title (recommend_for_existing_movie ex_no_model 1 4)
       = [Some ''Beta'', Some '' '', Some ''alpha '', Some ''Alpha'']
   \<and> title (movies_df ex_no_model ! 1) = Some ''Beta''"
proof -
  have "map_sum id (map fst) (cluster_top_movies ex_recommender ex_kmeans 0 4) = Inr [1, 2]"
    by code_simp
  moreover have "map rec_title (recommend_for_existing_movie ex_no_model 1 4)
       = [Some ''Beta'', Some '' '', Some ''alpha '', Some ''Alpha'']"
    by code_simp
  moreover have "title (movies_df ex_no_model ! 1) = Some ''Beta''"
    by code_simp
  ultimately show ?thesis
    by (simp add: ex_kmeans_def)
qed

section \<open>The lookup cache\<close>

lemma requests_get_caches:
  "requests_get e req w = (out, w1) \<Longrightarrow> tmdb_cache w1 = tmdb_cache w \<and> omdb_cache w1 = omdb_cache w"
  by (auto simp: requests_get_def)
























section \<open>Provider failures\<close>

text \<open>
  What the two lookups turn into a miss: a missing key, an exception of
  \<^verbatim>\<open>requests.get\<close>, a status other than 200, a body that is not JSON, and an empty
  result set.
\<close>

lemma search_movie_tmdb_uncached_miss:
  assumes "\<not> key_truthy (tmdb_api_key r)
           \<or> http_get e (TmdbSearch (tmdb_api_key r) q) = Raises_RequestException
           \<or> (\<exists>code body. http_get e (TmdbSearch (tmdb_api_key r) q) = Response code body
                 \<and> (code \<noteq> 200 \<or> body = None
                      \<or> body = Some (PyDict [(''results'', PyList [])])))"
  shows "fst (search_movie_tmdb_uncached r e q w) = Inr None"
  using assms by (auto simp: search_movie_tmdb_uncached_def requests_get_def)

lemma search_movie_omdb_uncached_miss:
  assumes "\<not> key_truthy (omdb_api_key r)
           \<or> http_get e (OmdbTitle (omdb_api_key r) q) = Raises_RequestException
           \<or> (\<exists>code body. http_get e (OmdbTitle (omdb_api_key r) q) = Response code body
                 \<and> (code \<noteq> 200 \<or> body = None
                      \<or> body = Some (PyDict [(''Response'', PyStr ''False'')])))"
  shows "fst (search_movie_omdb_uncached r e q w) = Inr None"
  using assms
  by (auto simp: search_movie_omdb_uncached_def requests_get_def omdb_movie_dict_def dict_get_def)

text \<open>
  Claim C4 fails on the code for a payload that is JSON of an unexpected shape. The
  lookups catch \<^verbatim>\<open>RequestException\<close> only. A TMDB search answered with status 200 and
  the object \<^verbatim>\<open>{}\<close> raises \<^verbatim>\<open>KeyError\<close> at \<^verbatim>\<open>data['results']\<close>; an OMDB answer
  whose \<^verbatim>\<open>Genre\<close> is \<^verbatim>\<open>null\<close> raises \<^verbatim>\<open>AttributeError\<close> at \<^verbatim>\<open>.replace\<close>. The
  exception leaves the lookup and \<^verbatim>\<open>get_recommendations\<close>; \<^verbatim>\<open>api_search\<close> answers
  with status 500.
\<close>

theorem provider_raises_on_malformed_payload:
  "fst (search_movie_tmdb ex_both_keys ex_env_malformed ''Gamma'' ex_world) = Inl KeyError
   \<and> fst (search_movie_omdb ex_both_keys ex_env_malformed ''Gamma'' ex_world) = Inl AttributeError
   \<and> fst (get_recommendations ex_both_keys ex_env_malformed ''Gamma'' 10 None ex_world)
       = Inl KeyError
   \<and> fst (api_search (Some ex_both_keys) ex_env_malformed
            (Some (PyDict [(''movie_name'', PyStr ''Gamma'')])) ex_world) = Reply_500"
proof -
  have "fst (search_movie_tmdb ex_both_keys ex_env_malformed ''Gamma'' ex_world) = Inl KeyError"
    by code_simp
  moreover
  have "fst (search_movie_omdb ex_both_keys ex_env_malformed ''Gamma'' ex_world)
          = Inl AttributeError"
    by code_simp
  moreover
  have "fst (get_recommendations ex_both_keys ex_env_malformed ''Gamma'' 10 None ex_world)
          = Inl KeyError"
    by code_simp
  moreover
  have "fst (api_search (Some ex_both_keys) ex_env_malformed
            (Some (PyDict [(''movie_name'', PyStr ''Gamma'')])) ex_world) = Reply_500"
    by code_simp
  ultimately show ?thesis by simp
qed

end
